theory Spec2Isabelle
  imports Complex_Main "HOL-Library.Multiset"
begin

section \<open>Numbers and text of the host language\<close>

text \<open>
  The program is TypeScript. Its numbers are IEEE 754 doubles (binary64): a finite double
  is a real number of at most 53 significant bits, and every arithmetic operation yields
  the exact result rounded to the nearest double, a tie going to the even significand.
  A value \<open>Finite x\<close> stands for the double \<open>x\<close>; the sign of zero is not represented (a
  zero is \<open>+0\<close>), which shows only where a negative zero is a divisor, and the program has
  no such division.
\<close>

datatype number = Finite real | PosInfinity | NegInfinity | NaN

text \<open>The nearest integer, a tie going to the even one.\<close>

definition round_half_even :: "real \<Rightarrow> int" where
  "round_half_even x =
     (let f = \<lfloor>x\<rfloor>; r = x - of_int f
      in if r < 1 / 2 then f else if 1 / 2 < r then f + 1 else if even f then f else f + 1)"

definition pow2 :: "int \<Rightarrow> real" where
  "pow2 k = (if 0 \<le> k then 2 ^ nat k else 1 / 2 ^ nat (- k))"

text \<open>The binary exponent of a nonzero real; the subnormal doubles share the exponent
  \<open>-1022\<close>.\<close>

definition exponent :: "real \<Rightarrow> int" where
  "exponent x = max \<lfloor>log 2 \<bar>x\<bar>\<rfloor> (- 1022)"

text \<open>
  The double nearest to a real: the real is rounded to a multiple of the spacing
  \<open>2^(e - 52)\<close> of the doubles of its exponent \<open>e\<close>; a result of magnitude \<open>2^1024\<close> is
  an infinity.
\<close>

definition binary64 :: "real \<Rightarrow> number" where
  "binary64 x =
     (if x = 0 then Finite 0
      else let u = pow2 (exponent x - 52);
               y = of_int (round_half_even (x / u)) * u
           in if pow2 1024 \<le> \<bar>y\<bar> then (if 0 < x then PosInfinity else NegInfinity)
              else Finite y)"

text \<open>An integer that the database driver hands over, as a number.\<close>

definition Number :: "int \<Rightarrow> number" where
  "Number i = binary64 (of_int i)"

text \<open>The operators \<open>-x\<close>, \<open>x + y\<close>, \<open>x - y\<close>, \<open>x * y\<close> and \<open>x / y\<close>.\<close>

fun num_neg :: "number \<Rightarrow> number" where
  "num_neg (Finite x) = Finite (- x)"
| "num_neg PosInfinity = NegInfinity"
| "num_neg NegInfinity = PosInfinity"
| "num_neg NaN = NaN"

fun num_add :: "number \<Rightarrow> number \<Rightarrow> number" where
  "num_add (Finite x) (Finite y) = binary64 (x + y)"
| "num_add NaN b = NaN"
| "num_add a NaN = NaN"
| "num_add PosInfinity NegInfinity = NaN"
| "num_add NegInfinity PosInfinity = NaN"
| "num_add PosInfinity b = PosInfinity"
| "num_add a PosInfinity = PosInfinity"
| "num_add NegInfinity b = NegInfinity"
| "num_add a NegInfinity = NegInfinity"

definition num_sub :: "number \<Rightarrow> number \<Rightarrow> number" where
  "num_sub a b = num_add a (num_neg b)"

fun is_negative :: "number \<Rightarrow> bool" where
  "is_negative (Finite x) = (x < 0)"
| "is_negative NegInfinity = True"
| "is_negative a = False"

fun num_mul :: "number \<Rightarrow> number \<Rightarrow> number" where
  "num_mul (Finite x) (Finite y) = binary64 (x * y)"
| "num_mul a b =
     (if a = NaN \<or> b = NaN \<or> a = Finite 0 \<or> b = Finite 0 then NaN
      else if is_negative a = is_negative b then PosInfinity else NegInfinity)"

fun num_div :: "number \<Rightarrow> number \<Rightarrow> number" where
  "num_div (Finite x) (Finite y) =
     (if y = 0 then (if x = 0 then NaN else if 0 < x then PosInfinity else NegInfinity)
      else binary64 (x / y))"
| "num_div NaN b = NaN"
| "num_div a NaN = NaN"
| "num_div (Finite x) b = Finite 0"
| "num_div a (Finite y) = (if is_negative a = (y < 0) then PosInfinity else NegInfinity)"
| "num_div a b = NaN"

text \<open>\<open>Math.round\<close>: the nearest integer, a tie going up.\<close>

fun Math_round :: "number \<Rightarrow> number" where
  "Math_round (Finite x) = Finite (of_int \<lfloor>x + 1 / 2\<rfloor>)"
| "Math_round a = a"

text \<open>
  \<open>Math.pow\<close> on a base that is a finite double (the program passes the literal 10).
  The language fixes its value on the special exponents (a zero exponent gives 1) and
  leaves the rest to the host, as an approximation of the power: that approximation
  \<open>host_pow\<close>, on a finite nonzero exponent, is a parameter of the model.
\<close>

definition Math_pow :: "(real \<Rightarrow> real \<Rightarrow> number) \<Rightarrow> real \<Rightarrow> number \<Rightarrow> number" where
  "Math_pow host_pow b ex =
     (case ex of
        NaN \<Rightarrow> NaN
      | Finite y \<Rightarrow> (if y = 0 then Finite 1 else host_pow b y)
      | PosInfinity \<Rightarrow> (if 1 < \<bar>b\<bar> then PosInfinity else if \<bar>b\<bar> = 1 then NaN else Finite 0)
      | NegInfinity \<Rightarrow> (if 1 < \<bar>b\<bar> then Finite 0 else if \<bar>b\<bar> = 1 then NaN else PosInfinity))"

text \<open>A host whose \<open>Math.pow\<close> returns the double nearest to the power.\<close>

definition correctly_rounded :: "real \<Rightarrow> real \<Rightarrow> number" where
  "correctly_rounded x y = binary64 (x powr y)"

text \<open>The decimal text of a number, as a template literal \<open>`${n}`\<close> prints it.\<close>

definition digit_char :: "nat \<Rightarrow> char" where
  "digit_char d = char_of (48 + d)"

fun string_of_nat :: "nat \<Rightarrow> string" where
  "string_of_nat n =
     (if n < 10 then [digit_char n]
      else string_of_nat (n div 10) @ [digit_char (n mod 10)])"

declare string_of_nat.simps [simp del]

text \<open>Errors are values: a thrown \<open>Error\<close> with its message, a \<open>TypeError\<close> of the
  runtime, a \<open>SyntaxError\<close> of \<open>JSON.parse\<close>, an error reported by the database.\<close>

datatype exn =
    Error string
  | TypeError string
  | SyntaxError string
  | DatabaseError string

section \<open>tests/elo-rating.test.ts: the rating formula\<close>

text \<open>The formula as the test file has it, operation by operation; \<open>host_pow\<close> is the
  host's power behind \<open>Math.pow\<close>.\<close>

definition calculateEloChange ::
  "(real \<Rightarrow> real \<Rightarrow> number) \<Rightarrow> number \<Rightarrow> number \<Rightarrow> number \<Rightarrow> number \<Rightarrow> number \<times> number" where
  "calculateEloChange host_pow ratingA ratingB scoreA k =
     (let expectedA = num_div (Finite 1) (num_add (Finite 1)
                        (Math_pow host_pow 10 (num_div (num_sub ratingB ratingA) (Finite 400))));
          expectedB = num_div (Finite 1) (num_add (Finite 1)
                        (Math_pow host_pow 10 (num_div (num_sub ratingA ratingB) (Finite 400))));
          scoreB = num_sub (Finite 1) scoreA;
          newRatingA = Math_round (num_add ratingA (num_mul k (num_sub scoreA expectedA)));
          newRatingB = Math_round (num_add ratingB (num_mul k (num_sub scoreB expectedB)))
      in (newRatingA, newRatingB))"

text \<open>The default of the parameter \<open>k\<close>.\<close>

definition calculateEloChange_k :: number where
  "calculateEloChange_k = Finite 32"

section \<open>src/database.ts: the tables\<close>

text \<open>
  The database is PostgreSQL behind a connection pool. The model is the two tables that
  \<open>initializeDatabase\<close> creates, with the two sequences behind their \<open>SERIAL\<close> keys, and
  it runs one statement at a time. A statement fails only where the schema rejects it;
  a lost connection is not modelled. The \<open>created_at\<close> and \<open>played_at\<close> timestamps are
  left out.
\<close>

record EngineRow =
  id_col :: nat
  name :: string
  description :: "string option"
  rating :: int
  games_played :: nat
  wins :: nat
  losses :: nat
  draws :: nat

datatype Color = White | Black

record GameRow =
  game_id :: nat
  engine1_id :: nat
  engine2_id :: nat
  winner_id :: "nat option"
  is_draw :: bool
  engine1_rating_before :: int
  engine2_rating_before :: int
  engine1_rating_after :: "int option"
  engine2_rating_after :: "int option"
  moves_col :: "string list option"
  duration_col :: "nat option"
  error_message :: "string option"
  final_status :: "string option"
  starting_position :: "string option"
  match_set_name :: "string option"
  engine1_color :: "Color option"
  engine2_color :: "Color option"

record Database =
  engines :: "EngineRow list"
  games :: "GameRow list"
  engines_id_seq :: nat
  games_id_seq :: nat

text \<open>Column defaults of \<open>CREATE TABLE engines\<close>.\<close>

definition rating_DEFAULT :: int where
  "rating_DEFAULT = 1500"

definition counter_DEFAULT :: nat where
  "counter_DEFAULT = 0"

text \<open>
  \<open>CREATE TABLE IF NOT EXISTS\<close>: on a server without the tables (\<open>None\<close>) they are
  created empty, existing tables are left as they are.
\<close>

definition initializeDatabase :: "Database option \<Rightarrow> Database" where
  "initializeDatabase server =
     (case server of
        None \<Rightarrow> \<lparr>engines = [], games = [], engines_id_seq = 0, games_id_seq = 0\<rparr>
      | Some db \<Rightarrow> db)"

text \<open>
  Storing a text in a \<open>VARCHAR(n)\<close> column: a longer text is an error, unless all that
  exceeds \<open>n\<close> characters is spaces, which are then cut off.
\<close>

definition varchar :: "nat \<Rightarrow> string \<Rightarrow> exn + string" where
  "varchar n s =
     (if length s \<le> n then Inr s
      else if list_all (\<lambda>c. c = CHR '' '') (drop n s) then Inr (take n s)
      else Inl (DatabaseError ''value too long for type character varying''))"

text \<open>
  \<open>INSERT INTO engines (name, rating, description) VALUES ($1, $2, $3) RETURNING id\<close>.
  The key is drawn from the sequence before the row is checked, so a rejected insert
  still advances the sequence; \<open>name\<close> is \<open>VARCHAR(255) UNIQUE NOT NULL\<close>.
\<close>

definition insert_engine :: "Database \<Rightarrow> string \<Rightarrow> int \<Rightarrow> string option \<Rightarrow> (exn + nat) \<times> Database" where
  "insert_engine db n r d =
     (let i = Suc (engines_id_seq db);
          db1 = db\<lparr>engines_id_seq := i\<rparr>
      in case varchar 255 n of
           Inl e \<Rightarrow> (Inl e, db1)
         | Inr n' \<Rightarrow>
             if n' \<in> set (map name (engines db))
             then (Inl (DatabaseError ''duplicate key value violates unique constraint''), db1)
             else (Inr i,
                   db1\<lparr>engines := engines db @
                     [\<lparr>id_col = i, name = n', description = d, rating = r,
                       games_played = counter_DEFAULT, wins = counter_DEFAULT,
                       losses = counter_DEFAULT, draws = counter_DEFAULT\<rparr>]\<rparr>))"

text \<open>\<open>SELECT rating FROM engines WHERE id = $1\<close>: the \<open>rows\<close> of the result.\<close>

definition select_rating :: "Database \<Rightarrow> nat \<Rightarrow> int list" where
  "select_rating db i = map rating (filter (\<lambda>e. id_col e = i) (engines db))"

text \<open>\<open>UPDATE engines SET ... WHERE ...\<close>: every row that matches is rewritten.\<close>

definition update_engines :: "(EngineRow \<Rightarrow> bool) \<Rightarrow> (EngineRow \<Rightarrow> EngineRow) \<Rightarrow> Database \<Rightarrow> Database" where
  "update_engines P f db = db\<lparr>engines := map (\<lambda>e. if P e then f e else e) (engines db)\<rparr>"

text \<open>
  A number passed as the parameter of an \<open>INTEGER\<close> column. The driver sends its decimal
  text; the server takes the text of an integer and rejects \<open>NaN\<close>, \<open>Infinity\<close> and a
  fraction. As everywhere in this model, the 32-bit range of the column is left out.
\<close>

definition integer_param :: "number \<Rightarrow> exn + int" where
  "integer_param v =
     (case v of
        Finite x \<Rightarrow>
          (if x = of_int \<lfloor>x\<rfloor> then Inr \<lfloor>x\<rfloor>
           else Inl (DatabaseError ''invalid input syntax for type integer''))
      | _ \<Rightarrow> Inl (DatabaseError ''invalid input syntax for type integer''))"

text \<open>
  A number passed as the row count of \<open>LIMIT\<close>, a \<open>bigint\<close>: the text of a negative
  integer is taken and the query then rejected, the text of anything but an integer is
  not taken (from \<open>10^21\<close> on the text of a number is in exponent notation).
\<close>

definition limit_param :: "number \<Rightarrow> exn + nat" where
  "limit_param v =
     (case v of
        Finite x \<Rightarrow>
          (if x \<noteq> of_int \<lfloor>x\<rfloor> \<or> 10 ^ 21 \<le> \<bar>x\<bar>
           then Inl (DatabaseError ''invalid input syntax for type bigint'')
           else if x < - (2 ^ 63) \<or> 2 ^ 63 \<le> x
           then Inl (DatabaseError ''value out of range for type bigint'')
           else if x < 0 then Inl (DatabaseError ''LIMIT must not be negative'')
           else Inr (nat \<lfloor>x\<rfloor>))
      | _ \<Rightarrow> Inl (DatabaseError ''invalid input syntax for type bigint''))"

section \<open>src/database.ts: the operations\<close>

text \<open>
  An omitted optional argument is \<open>None\<close>; the parameter's default then applies. Every
  operation takes the database and returns its outcome with the database it leaves. An
  operation that computes ratings takes the host's power \<open>host_pow\<close> first, and
  \<open>getRankings\<close> the order \<open>order_by\<close> in which the server returns the rows.
\<close>

definition addEngine :: "Database \<Rightarrow> string \<Rightarrow> int option \<Rightarrow> string option \<Rightarrow> (exn + nat) \<times> Database" where
  "addEngine pool n rating_arg description_arg =
     (let r = (case rating_arg of None \<Rightarrow> 1500 | Some r \<Rightarrow> r)
      in insert_engine pool n r description_arg)"

text \<open>
  \<open>updateRatings\<close> sends its statements through the pool, one by one: a statement that
  the server rejects leaves the earlier ones in place.
\<close>

definition updateRatings ::
  "(real \<Rightarrow> real \<Rightarrow> number) \<Rightarrow> Database \<Rightarrow> nat \<Rightarrow> nat \<Rightarrow> bool option \<Rightarrow> (exn + unit) \<times> Database" where
  "updateRatings host_pow pool engine1Id engine2Id isDraw_arg =
     (let isDraw = (case isDraw_arg of None \<Rightarrow> False | Some b \<Rightarrow> b);
          K = Finite 32;
          engine1 = select_rating pool engine1Id;
          engine2 = select_rating pool engine2Id
      in case engine1 of
           [] \<Rightarrow> (Inl (TypeError ''Cannot read properties of undefined (reading 'rating')''), pool)
         | r1 # _ \<Rightarrow>
        (case engine2 of
           [] \<Rightarrow> (Inl (TypeError ''Cannot read properties of undefined (reading 'rating')''), pool)
         | r2 # _ \<Rightarrow>
             let rating1 = Number r1;
                 rating2 = Number r2;
                 expected1 = num_div (Finite 1) (num_add (Finite 1)
                               (Math_pow host_pow 10 (num_div (num_sub rating2 rating1) (Finite 400))));
                 expected2 = num_div (Finite 1) (num_add (Finite 1)
                               (Math_pow host_pow 10 (num_div (num_sub rating1 rating2) (Finite 400))));
                 score1 = (if isDraw then Finite (1 / 2) else Finite 1);
                 score2 = (if isDraw then Finite (1 / 2) else Finite 0);
                 newRating1 = Math_round (num_add rating1 (num_mul K (num_sub score1 expected1)));
                 newRating2 = Math_round (num_add rating2 (num_mul K (num_sub score2 expected2)))
             in case integer_param newRating1 of
                  Inl e \<Rightarrow> (Inl e, pool)
                | Inr n1 \<Rightarrow>
                    let db1 = update_engines (\<lambda>e. id_col e = engine1Id)
                                (\<lambda>e. e\<lparr>rating := n1, games_played := games_played e + 1\<rparr>) pool
                    in (case integer_param newRating2 of
                          Inl e \<Rightarrow> (Inl e, db1)
                        | Inr n2 \<Rightarrow>
                            let db2 = update_engines (\<lambda>e. id_col e = engine2Id)
                                        (\<lambda>e. e\<lparr>rating := n2, games_played := games_played e + 1\<rparr>) db1;
                                db3 = (if isDraw
                                       then update_engines (\<lambda>e. id_col e = engine1Id \<or> id_col e = engine2Id)
                                              (\<lambda>e. e\<lparr>draws := draws e + 1\<rparr>) db2
                                       else update_engines (\<lambda>e. id_col e = engine2Id)
                                              (\<lambda>e. e\<lparr>losses := losses e + 1\<rparr>)
                                              (update_engines (\<lambda>e. id_col e = engine1Id)
                                                 (\<lambda>e. e\<lparr>wins := wins e + 1\<rparr>) db2))
                            in (Inr (), db3))))"

datatype Outcome = Win | Loss | Draw | Errored

text \<open>
  The argument of \<open>recordGameResult\<close>. \<open>result\<close> is one of the literals \<open>'win'\<close>,
  \<open>'loss'\<close>, \<open>'draw'\<close>, \<open>'error'\<close>, seen from engine 1.
\<close>

record GameResult =
  engine1Id :: nat
  engine2Id :: nat
  result :: Outcome
  moves :: "string list option"
  duration :: "nat option"
  error :: "string option"
  finalStatus :: "string option"
  startingPosition :: "string option"
  matchSetName :: "string option"
  engine1Color :: "Color option"
  engine2Color :: "Color option"

text \<open>
  \<open>INSERT INTO games (...) VALUES ($1, ..., $14)\<close>. The two \<open>rating_after\<close> columns are
  not in the column list and stay \<open>NULL\<close>. The \<open>moves\<close> column holds the JSON text of the
  move list; the row keeps the list. \<open>starting_position\<close> and \<open>match_set_name\<close> are
  \<open>VARCHAR(255)\<close>.
\<close>

definition varchar_opt :: "nat \<Rightarrow> string option \<Rightarrow> exn + string option" where
  "varchar_opt n v =
     (case v of
        None \<Rightarrow> Inr None
      | Some s \<Rightarrow> (case varchar n s of Inl e \<Rightarrow> Inl e | Inr s' \<Rightarrow> Inr (Some s')))"

definition insert_game ::
  "Database \<Rightarrow> nat \<Rightarrow> nat \<Rightarrow> nat option \<Rightarrow> bool \<Rightarrow> int \<Rightarrow> int \<Rightarrow> GameResult \<Rightarrow> (exn + unit) \<times> Database" where
  "insert_game db e1 e2 winnerId isDraw rating1Before rating2Before g =
     (let i = Suc (games_id_seq db);
          db1 = db\<lparr>games_id_seq := i\<rparr>
      in case varchar_opt 255 (startingPosition g) of
           Inl e \<Rightarrow> (Inl e, db1)
         | Inr sp \<Rightarrow>
        (case varchar_opt 255 (matchSetName g) of
           Inl e \<Rightarrow> (Inl e, db1)
         | Inr ms \<Rightarrow>
             (Inr (),
              db1\<lparr>games := games db @
                [\<lparr>game_id = i, engine1_id = e1, engine2_id = e2, winner_id = winnerId,
                  is_draw = isDraw, engine1_rating_before = rating1Before,
                  engine2_rating_before = rating2Before,
                  engine1_rating_after = None, engine2_rating_after = None,
                  moves_col = moves g, duration_col = duration g, error_message = error g,
                  final_status = finalStatus g, starting_position = sp, match_set_name = ms,
                  engine1_color = engine1Color g, engine2_color = engine2Color g\<rparr>]\<rparr>)))"

definition recordGameResult ::
  "(real \<Rightarrow> real \<Rightarrow> number) \<Rightarrow> Database \<Rightarrow> GameResult \<Rightarrow> bool option \<Rightarrow> (exn + unit) \<times> Database" where
  "recordGameResult host_pow pool gameResult shouldUpdateRatings_arg =
     (let shouldUpdateRatings = (case shouldUpdateRatings_arg of None \<Rightarrow> True | Some b \<Rightarrow> b);
          isDraw = (result gameResult = Draw);
          winnerId = (if isDraw then None
                      else if result gameResult = Win then Some (engine1Id gameResult)
                      else Some (engine2Id gameResult));
          engine1 = select_rating pool (engine1Id gameResult);
          engine2 = select_rating pool (engine2Id gameResult)
      in if length engine1 = 0 \<or> length engine2 = 0
         then (Inl (Error ''One or both engines not found''), pool)
         else
           let rating1Before = hd engine1;
               rating2Before = hd engine2
           in case insert_game pool (engine1Id gameResult) (engine2Id gameResult) winnerId isDraw
                     rating1Before rating2Before gameResult of
                (Inl e, db1) \<Rightarrow> (Inl e, db1)
              | (Inr _, db1) \<Rightarrow>
                  if shouldUpdateRatings \<and> result gameResult \<noteq> Errored
                  then updateRatings host_pow db1 (engine1Id gameResult) (engine2Id gameResult) (Some isDraw)
                  else (Inr (), db1))"

text \<open>
  A row of \<open>getRankings\<close>. The \<open>description\<close> property exists only where the column was
  selected: \<open>None\<close> is a row without the property, \<open>Some d\<close> a row that has it (\<open>d\<close> may be
  \<open>NULL\<close>).
\<close>

record RankingRow =
  row_name :: string
  row_rating :: int
  row_games_played :: nat
  row_wins :: nat
  row_losses :: nat
  row_draws :: nat
  row_description :: "string option option"

definition select_fields :: "bool \<Rightarrow> EngineRow \<Rightarrow> RankingRow" where
  "select_fields detailed e =
     \<lparr>row_name = name e, row_rating = rating e, row_games_played = games_played e,
      row_wins = wins e, row_losses = losses e, row_draws = draws e,
      row_description = (if detailed then Some (description e) else None)\<rparr>"

text \<open>
  \<open>ORDER BY rating DESC\<close>. SQL leaves the order of rows of equal rating to the server,
  query by query. The order in which the server returns the rows of a query is therefore
  a parameter \<open>order_by\<close> of the model, and \<open>ORDER_BY_rating_DESC\<close> says what SQL asks
  of it: the rows of the table, each once, in descending order of rating.
\<close>

definition ORDER_BY_rating_DESC :: "(EngineRow list \<Rightarrow> EngineRow list) \<Rightarrow> bool" where
  "ORDER_BY_rating_DESC order_by \<longleftrightarrow>
     (\<forall>es. mset (order_by es) = mset es
           \<and> sorted_wrt (\<lambda>a b. rating b \<le> rating a) (order_by es))"

text \<open>\<open>SELECT ${fields} FROM engines ORDER BY rating DESC LIMIT $1\<close>.\<close>

definition getRankings ::
  "(EngineRow list \<Rightarrow> EngineRow list) \<Rightarrow> Database \<Rightarrow> number option \<Rightarrow> bool option
     \<Rightarrow> exn + RankingRow list" where
  "getRankings order_by pool limit_arg detailed_arg =
     (let limit = (case limit_arg of None \<Rightarrow> Finite 10 | Some n \<Rightarrow> n);
          detailed = (case detailed_arg of None \<Rightarrow> False | Some b \<Rightarrow> b)
      in case limit_param limit of
           Inl e \<Rightarrow> Inl e
         | Inr n \<Rightarrow> Inr (map (select_fields detailed) (take n (order_by (engines pool)))))"

text \<open>
  \<open>SELECT engine1_id, engine2_id, COUNT(*) as game_count FROM games GROUP BY engine1_id,
  engine2_id\<close>: one row for each ordered pair that has a game. The driver hands the count
  over as decimal text and \<open>parseInt\<close> reads it back; the row here holds the number.
\<close>

definition pair_game_count_rows :: "GameRow list \<Rightarrow> (nat \<times> nat \<times> nat) list" where
  "pair_game_count_rows gs =
     map (\<lambda>(a, b). (a, b, length (filter (\<lambda>g. engine1_id g = a \<and> engine2_id g = b) gs)))
       (remdups (map (\<lambda>g. (engine1_id g, engine2_id g)) gs))"

text \<open>The key \<open>`${a}-${b}`\<close> of the map.\<close>

definition pairKey :: "nat \<Rightarrow> nat \<Rightarrow> string" where
  "pairKey a b = string_of_nat a @ ''-'' @ string_of_nat b"

text \<open>The \<open>forEach\<close> over the rows: each row sets both keys.\<close>

fun setPairCounts :: "(string \<rightharpoonup> nat) \<Rightarrow> (nat \<times> nat \<times> nat) list \<Rightarrow> (string \<rightharpoonup> nat)" where
  "setPairCounts pairCounts [] = pairCounts"
| "setPairCounts pairCounts ((a, b, c) # rows) =
     setPairCounts ((pairCounts(pairKey a b \<mapsto> c))(pairKey b a \<mapsto> c)) rows"

definition getPairGameCounts :: "Database \<Rightarrow> (string \<rightharpoonup> nat)" where
  "getPairGameCounts pool = setPairCounts Map.empty (pair_game_count_rows (games pool))"

section \<open>src/index.ts: playing and recording a match set\<close>

text \<open>What the functions of this section print is left out of the model.\<close>

record StartingPosition =
  position_name :: string
  position_description :: "string option"
  position_moves :: "string list"
  fen :: "string option"

record MatchSet =
  set_name :: string
  set_description :: "string option"
  startingPositions :: "StartingPosition list"
  gamesPerPosition :: nat

record MatchSetResult =
  result_engine1Id :: nat
  result_engine2Id :: nat
  result_matchSetName :: string
  result_games :: "GameResult list"
  engine1Score :: number
  engine2Score :: number
  totalGames :: nat
  completed :: bool

definition message :: "exn \<Rightarrow> string" where
  "message e = (case e of Error m \<Rightarrow> m | TypeError m \<Rightarrow> m | SyntaxError m \<Rightarrow> m | DatabaseError m \<Rightarrow> m)"

definition other_color :: "Color \<Rightarrow> Color" where
  "other_color c = (if c = White then Black else White)"

text \<open>
  \<open>runEngineGame\<close> starts two engine processes and drives them through a game. What the
  processes do is a parameter of the model: for the game with a given index (the number
  of games the match set has played before it), starting position and colour of engine
  1, the run either throws or ends with an outcome, the moves, the duration and the
  final status.
\<close>

type_synonym EngineRun = "nat \<Rightarrow> StartingPosition \<Rightarrow> Color \<Rightarrow> exn + (Outcome \<times> string list \<times> nat \<times> string)"

text \<open>A call of \<open>playGame\<close> returns a game or throws. A throw of the run itself is caught
  and becomes a game with the result \<open>'error'\<close>.\<close>

definition playGame ::
  "Database \<Rightarrow> EngineRun \<Rightarrow> nat \<Rightarrow> nat \<Rightarrow> nat \<Rightarrow> StartingPosition \<Rightarrow> string \<Rightarrow> Color \<Rightarrow> exn + GameResult" where
  "playGame db run index e1 e2 sp matchSetName_arg engine1Color_arg =
     (if length (filter (\<lambda>e. id_col e = e1) (engines db)) = 0
         \<or> length (filter (\<lambda>e. id_col e = e2) (engines db)) = 0
      then Inl (Error ''One or both engines not found'')
      else
        (case run index sp engine1Color_arg of
           Inr (r, ms, d, st) \<Rightarrow>
             Inr \<lparr>engine1Id = e1, engine2Id = e2, result = r, moves = Some ms, duration = Some d,
                  error = None, finalStatus = Some st,
                  startingPosition = Some (position_name sp),
                  matchSetName = (if matchSetName_arg = [] then None else Some matchSetName_arg),
                  engine1Color = Some engine1Color_arg,
                  engine2Color = Some (other_color engine1Color_arg)\<rparr>
         | Inl err \<Rightarrow>
             Inr \<lparr>engine1Id = e1, engine2Id = e2, result = Errored, moves = None, duration = None,
                  error = Some (message err), finalStatus = None,
                  startingPosition = Some (position_name sp),
                  matchSetName = (if matchSetName_arg = [] then None else Some matchSetName_arg),
                  engine1Color = Some engine1Color_arg,
                  engine2Color = Some (other_color engine1Color_arg)\<rparr>))"

text \<open>The score update after a game: the \<open>if\<close> chain on \<open>game.result\<close>, which has no
  branch for \<open>'error'\<close>.\<close>

definition addScore :: "Outcome \<Rightarrow> number \<times> number \<Rightarrow> number \<times> number" where
  "addScore r s =
     (if r = Win then (num_add (fst s) (Finite 1), snd s)
      else if r = Loss then (fst s, num_add (snd s) (Finite 1))
      else if r = Draw then (num_add (fst s) (Finite (1 / 2)), num_add (snd s) (Finite (1 / 2)))
      else s)"

text \<open>The loop over the starting positions: two games each, engine 1 first white, then
  black. A throw of \<open>playGame\<close> leaves the loop for the \<open>catch\<close> block.\<close>

fun playPositions ::
  "Database \<Rightarrow> EngineRun \<Rightarrow> nat \<Rightarrow> nat \<Rightarrow> string \<Rightarrow> StartingPosition list
     \<Rightarrow> GameResult list \<Rightarrow> number \<times> number \<Rightarrow> bool \<times> GameResult list \<times> number \<times> number" where
  "playPositions db run e1 e2 n [] gs s = (True, gs, s)"
| "playPositions db run e1 e2 n (sp # sps) gs s =
     (case playGame db run (length gs) e1 e2 sp n White of
        Inl _ \<Rightarrow> (False, gs, s)
      | Inr game1 \<Rightarrow>
          let gs1 = gs @ [game1];
              s1 = addScore (result game1) s
          in (case playGame db run (length gs1) e1 e2 sp n Black of
                Inl _ \<Rightarrow> (False, gs1, s1)
              | Inr game2 \<Rightarrow>
                  playPositions db run e1 e2 n sps (gs1 @ [game2]) (addScore (result game2) s1)))"

definition playMatchSet :: "Database \<Rightarrow> EngineRun \<Rightarrow> nat \<Rightarrow> nat \<Rightarrow> MatchSet \<Rightarrow> MatchSetResult" where
  "playMatchSet db run e1 e2 matchSet =
     (case playPositions db run e1 e2 (set_name matchSet) (startingPositions matchSet) []
             (Finite 0, Finite 0) of
        (ok, gs, s1, s2) \<Rightarrow>
          \<lparr>result_engine1Id = e1, result_engine2Id = e2, result_matchSetName = set_name matchSet,
           result_games = gs, engine1Score = s1, engine2Score = s2,
           totalGames = length gs, completed = ok\<rparr>)"

text \<open>The number of games with a result other than \<open>'error'\<close>: the \<open>N\<close> of the
  specification.\<close>

definition nonErrorGames :: "GameResult list \<Rightarrow> nat" where
  "nonErrorGames gs = length (filter (\<lambda>g. result g \<noteq> Errored) gs)"

text \<open>The arithmetic of \<open>recordMatchSetResult\<close>, from the expected scores to the two
  rating changes, on the two actual scores.\<close>

definition ratingChanges ::
  "(real \<Rightarrow> real \<Rightarrow> number) \<Rightarrow> number \<Rightarrow> number \<Rightarrow> number \<Rightarrow> number \<Rightarrow> number \<times> number" where
  "ratingChanges host_pow engine1Rating engine2Rating actualScore1 actualScore2 =
     (let expectedScore1 = num_div (Finite 1) (num_add (Finite 1)
                             (Math_pow host_pow 10
                                (num_div (num_sub engine2Rating engine1Rating) (Finite 400))));
          expectedScore2 = num_sub (Finite 1) expectedScore1;
          K = Finite 32;
          ratingChange1 = Math_round (num_mul K (num_sub actualScore1 expectedScore1));
          ratingChange2 = Math_round (num_mul K (num_sub actualScore2 expectedScore2))
      in (ratingChange1, ratingChange2))"

text \<open>The loop that records the games, each without a rating update.\<close>

fun recordGames ::
  "(real \<Rightarrow> real \<Rightarrow> number) \<Rightarrow> Database \<Rightarrow> GameResult list \<Rightarrow> (exn + unit) \<times> Database" where
  "recordGames host_pow db [] = (Inr (), db)"
| "recordGames host_pow db (game # rest) =
     (case recordGameResult host_pow db game (Some False) of
        (Inl e, db1) \<Rightarrow> (Inl e, db1)
      | (Inr _, db1) \<Rightarrow> recordGames host_pow db1 rest)"

text \<open>
  \<open>recordMatchSetResult\<close> opens a transaction on a client of its own, but records the
  games through the pool, outside that transaction: they are committed one by one. The
  transaction holds the two rating updates only, so \<open>ROLLBACK\<close> leaves the database as
  the recorded games left it. With \<open>totalGames = 0\<close> the two actual scores are not numbers
  (\<open>0 / 0\<close>), nor are the new ratings, and the first \<open>UPDATE\<close> is rejected for its
  \<open>INTEGER\<close> column.
\<close>

definition recordMatchSetResult ::
  "(real \<Rightarrow> real \<Rightarrow> number) \<Rightarrow> Database \<Rightarrow> MatchSetResult \<Rightarrow> (exn + unit) \<times> Database" where
  "recordMatchSetResult host_pow pool matchSetResult =
     (case recordGames host_pow pool (result_games matchSetResult) of
        (Inl e, db1) \<Rightarrow> (Inl e, db1)
      | (Inr _, db1) \<Rightarrow>
          let engine1Query = select_rating db1 (result_engine1Id matchSetResult);
              engine2Query = select_rating db1 (result_engine2Id matchSetResult)
          in if length engine1Query = 0 \<or> length engine2Query = 0
             then (Inl (Error ''Engine not found for rating update''), db1)
             else
               let engine1Rating = Number (hd engine1Query);
                   engine2Rating = Number (hd engine2Query);
                   actualScore1 = num_div (engine1Score matchSetResult)
                                    (Number (int (totalGames matchSetResult)));
                   actualScore2 = num_div (engine2Score matchSetResult)
                                    (Number (int (totalGames matchSetResult)));
                   (ratingChange1, ratingChange2) =
                      ratingChanges host_pow engine1Rating engine2Rating actualScore1 actualScore2;
                   newRating1 = num_add engine1Rating ratingChange1;
                   newRating2 = num_add engine2Rating ratingChange2
               in case integer_param newRating1 of
                    Inl e \<Rightarrow> (Inl e, db1)
                  | Inr n1 \<Rightarrow>
                 (case integer_param newRating2 of
                    Inl e \<Rightarrow> (Inl e, db1)
                  | Inr n2 \<Rightarrow>
                      let db2 = update_engines (\<lambda>e. id_col e = result_engine1Id matchSetResult)
                                  (\<lambda>e. e\<lparr>rating := n1\<rparr>) db1;
                          db3 = update_engines (\<lambda>e. id_col e = result_engine2Id matchSetResult)
                                  (\<lambda>e. e\<lparr>rating := n2\<rparr>) db2
                      in (Inr (), db3)))"

section \<open>src/index.ts: loading the engines at startup\<close>

text \<open>
  The file system is a map from a path to the text of the file there. \<open>JSON.parse\<close>
  is a parameter: it gives the parsed document or throws a \<open>SyntaxError\<close>. Of the parsed
  document the loader reads the \<open>engines\<close> array (it may be missing) and the name and
  description of \<open>tournament\<close> (it may be missing too).
\<close>

record EngineConfig =
  cfg_name :: string
  executable :: string
  workingDirectory :: string
  arguments :: "string list"
  initialRating :: int
  cfg_description :: "string option"
  enabled :: "bool option"

record Tournament =
  tournament_name :: string
  tournament_description :: "string option"

record TournamentConfig =
  tournament :: "Tournament option"
  cfg_engines :: "EngineConfig list option"

text \<open>What the program prints: one constructor for each call of \<open>console.log\<close>,
  \<open>console.warn\<close> and \<open>console.error\<close> in the loader, with the values its template
  interpolates.\<close>

datatype console_line =
    NoConfigFileFound string
  | CreateEnginesJsonHint
  | AutoLoading string
  | TournamentName string
  | TournamentDescription string
  | UpdatedEngine string
  | EngineAlreadyExists string
  | AddedEngine string int
  | FailedToProcessEngine string exn
  | AutoLoaded nat
  | EnginesAlreadyExist nat
  | TotalEngines nat
  | FailedToAutoLoad exn
  | ManualLoadHint

record World =
  pool :: Database
  console :: "console_line list"

definition console_log :: "console_line \<Rightarrow> World \<Rightarrow> World" where
  "console_log l w = w\<lparr>console := console w @ [l]\<rparr>"

text \<open>\<open>process.env.ENGINES_CONFIG || './engines.json'\<close>: an unset or empty variable
  gives the default path.\<close>

definition DEFAULT_CONFIG_FILE :: "string option \<Rightarrow> string" where
  "DEFAULT_CONFIG_FILE ENGINES_CONFIG =
     (case ENGINES_CONFIG of
        None \<Rightarrow> ''./engines.json''
      | Some p \<Rightarrow> if p = [] then ''./engines.json'' else p)"

text \<open>The \<open>for\<close> loop of \<open>loadEnginesFromConfig\<close> with its two counters.\<close>

fun processEngines :: "bool \<Rightarrow> EngineConfig list \<Rightarrow> nat \<Rightarrow> nat \<Rightarrow> World \<Rightarrow> (exn + nat \<times> nat) \<times> World" where
  "processEngines replace [] loaded skipped w = (Inr (loaded, skipped), w)"
| "processEngines replace (engineConfig # rest) loaded skipped w =
     (let existing = filter (\<lambda>e. name e = cfg_name engineConfig) (engines (pool w))
      in if length existing > 0 then
           if replace then
             processEngines replace rest (loaded + 1) skipped
               (console_log (UpdatedEngine (cfg_name engineConfig))
                  (w\<lparr>pool := update_engines (\<lambda>e. name e = cfg_name engineConfig)
                       (\<lambda>e. e\<lparr>description := cfg_description engineConfig,
                               rating := initialRating engineConfig\<rparr>) (pool w)\<rparr>))
           else
             processEngines replace rest loaded (skipped + 1)
               (console_log (EngineAlreadyExists (cfg_name engineConfig)) w)
         else
           (case addEngine (pool w) (cfg_name engineConfig) (Some (initialRating engineConfig))
                   (cfg_description engineConfig) of
              (Inl e, db) \<Rightarrow>
                (Inl e, console_log (FailedToProcessEngine (cfg_name engineConfig) e) (w\<lparr>pool := db\<rparr>))
            | (Inr _, db) \<Rightarrow>
                processEngines replace rest (loaded + 1) skipped
                  (console_log (AddedEngine (cfg_name engineConfig) (initialRating engineConfig))
                     (w\<lparr>pool := db\<rparr>))))"

definition loadEnginesFromConfig ::
  "(string \<Rightarrow> exn + TournamentConfig) \<Rightarrow> (string \<rightharpoonup> string) \<Rightarrow> World \<Rightarrow> string \<Rightarrow> bool option
     \<Rightarrow> (exn + nat \<times> nat) \<times> World" where
  "loadEnginesFromConfig JSON_parse fs w configPath replace_arg =
     (let replace = (case replace_arg of None \<Rightarrow> False | Some b \<Rightarrow> b)
      in case fs configPath of
           None \<Rightarrow> (Inl (Error (''Configuration file not found: '' @ configPath)), w)
         | Some configData \<Rightarrow>
        (case JSON_parse configData of
           Inl e \<Rightarrow> (Inl e, w)
         | Inr config \<Rightarrow>
        (case cfg_engines config of
           None \<Rightarrow> (Inl (Error ''Invalid configuration: engines array not found''), w)
         | Some es \<Rightarrow>
        (case tournament config of
           None \<Rightarrow> (Inl (TypeError ''Cannot read properties of undefined (reading 'name')''), w)
         | Some t \<Rightarrow>
             let w1 = console_log (TournamentName (tournament_name t)) w;
                 w2 = (case tournament_description t of
                         None \<Rightarrow> w1
                       | Some d \<Rightarrow> if d = [] then w1 else console_log (TournamentDescription d) w1)
             in processEngines replace es 0 0 w2))))"

definition autoLoadEngines ::
  "(string \<Rightarrow> exn + TournamentConfig) \<Rightarrow> (string \<rightharpoonup> string) \<Rightarrow> string option \<Rightarrow> World
     \<Rightarrow> (exn + unit) \<times> World" where
  "autoLoadEngines JSON_parse fs ENGINES_CONFIG w =
     (let file = DEFAULT_CONFIG_FILE ENGINES_CONFIG
      in if fs file = None
         then (Inr (), console_log CreateEnginesJsonHint (console_log (NoConfigFileFound file) w))
         else
           (case loadEnginesFromConfig JSON_parse fs (console_log (AutoLoading file) w) file (Some False) of
              (Inr (loaded, skipped), w1) \<Rightarrow>
                let w2 = (if loaded > 0 then console_log (AutoLoaded loaded) w1 else w1);
                    w3 = (if skipped > 0 then console_log (EnginesAlreadyExist skipped) w2 else w2)
                in (Inr (), console_log (TotalEngines (length (engines (pool w3)))) w3)
            | (Inl e, w1) \<Rightarrow>
                (Inr (), console_log ManualLoadHint (console_log (FailedToAutoLoad e) w1))))"

section \<open>The rating rule in the words of the specification\<close>

text \<open>
  The specification gives the expected score \<open>E1 = 1 / (1 + 10^((R2 - R1) / 400))\<close> and
  the two changes \<open>round(K (A1 - E1))\<close> and \<open>round(K ((1 - A1) - (1 - E1)))\<close> with
  \<open>K = 32\<close>. These three definitions follow that wording, to be compared with the code.
\<close>

definition spec_E1 :: "int \<Rightarrow> int \<Rightarrow> real" where
  "spec_E1 R1 R2 = 1 / (1 + 10 powr ((real_of_int R2 - real_of_int R1) / 400))"

definition spec_delta1 :: "int \<Rightarrow> int \<Rightarrow> real \<Rightarrow> int" where
  "spec_delta1 R1 R2 A1 = round (32 * (A1 - spec_E1 R1 R2))"

definition spec_delta2 :: "int \<Rightarrow> int \<Rightarrow> real \<Rightarrow> int" where
  "spec_delta2 R1 R2 A1 = round (32 * ((1 - A1) - (1 - spec_E1 R1 R2)))"

text \<open>The ratings that an \<open>INTEGER\<close> column holds.\<close>

definition int4 :: "int \<Rightarrow> bool" where
  "int4 r \<longleftrightarrow> - (2 ^ 31) \<le> r \<and> r < 2 ^ 31"

text \<open>
  What the theorems on the rating rule ask of the host's power of 10: a number that is
  not negative and differs from the power \<open>p\<close> by at most \<open>(1 + p) / 2048\<close>, or infinity
  where the power is above 2047. The hosts are far more exact than that (their error is
  about the spacing of the doubles, \<open>p / 2^52\<close>).
\<close>

definition accurate :: "(real \<Rightarrow> real \<Rightarrow> number) \<Rightarrow> bool" where
  "accurate host_pow \<longleftrightarrow>
     (\<forall>v. case host_pow 10 v of
            Finite q \<Rightarrow> 0 \<le> q \<and> \<bar>q - 10 powr v\<bar> \<le> (1 + 10 powr v) / 2048
          | PosInfinity \<Rightarrow> 2047 \<le> 10 powr v
          | _ \<Rightarrow> False)"

text \<open>A real that is more than 1/8 away from the number half-way between the two
  integers around it.\<close>

definition clear_of_tie :: "real \<Rightarrow> bool" where
  "clear_of_tie y \<longleftrightarrow> 1 / 8 < \<bar>y - of_int \<lfloor>y\<rfloor> - 1 / 2\<bar>"

section \<open>The rankings in the words of the specification\<close>

text \<open>A row of the rankings shows an engine: it has the engine's name, rating and
  counters, and in the detailed variant the engine's description.\<close>

definition shows_engine :: "bool \<Rightarrow> RankingRow \<Rightarrow> EngineRow \<Rightarrow> bool" where
  "shows_engine detailed r e \<longleftrightarrow>
     row_name r = name e \<and> row_rating r = rating e \<and> row_games_played r = games_played e
     \<and> row_wins r = wins e \<and> row_losses r = losses e \<and> row_draws r = draws e
     \<and> row_description r = (if detailed then Some (description e) else None)"

section \<open>States of the database\<close>

text \<open>The states the program can bring the database to: it starts from the empty tables
  and changes them by the operations above only.\<close>

inductive reachable :: "Database \<Rightarrow> bool" where
  reachable_init: "reachable (initializeDatabase None)"
| reachable_addEngine: "reachable db \<Longrightarrow> reachable (snd (addEngine db n r d))"
| reachable_updateRatings:
    "reachable db \<Longrightarrow> reachable (snd (updateRatings host_pow db e1 e2 isDraw))"
| reachable_recordGameResult:
    "reachable db \<Longrightarrow> reachable (snd (recordGameResult host_pow db g s))"
| reachable_recordMatchSetResult:
    "reachable db \<Longrightarrow> reachable (snd (recordMatchSetResult host_pow db m))"
| reachable_loadEnginesFromConfig:
    "reachable (pool w) \<Longrightarrow>
     reachable (pool (snd (loadEnginesFromConfig JSON_parse fs w path replace)))"

text \<open>What the \<open>UNIQUE\<close> and \<open>VARCHAR(255)\<close> constraints on \<open>name\<close> keep true.\<close>

definition names_ok :: "Database \<Rightarrow> bool" where
  "names_ok db \<longleftrightarrow>
     distinct (map name (engines db)) \<and> list_all (\<lambda>e. length (name e) \<le> 255) (engines db)"

text \<open>Whether the games table has a game of the pair in the other order: \<open>j\<close> as engine
  1 against \<open>i\<close> as engine 2.\<close>

definition mirrored :: "Database \<Rightarrow> nat \<Rightarrow> nat \<Rightarrow> bool" where
  "mirrored db i j = list_ex (\<lambda>g. engine1_id g = j \<and> engine2_id g = i) (games db)"

section \<open>Example inputs\<close>

text \<open>Two engines added with the default rating.\<close>

definition two_engines :: Database where
  "two_engines =
     snd (addEngine (snd (addEngine (initializeDatabase None) ''Alpha'' None None))
            ''Beta'' None None)"

text \<open>A run in which an engine process dies in every game, and a match set of one
  starting position (the one \<open>selectOptimalPairing\<close> makes up when none is configured,
  under a shorter name).\<close>

definition crashing_run :: EngineRun where
  "crashing_run i sp c = Inl (Error ''Engine crashed'')"

text \<open>A run in which engine 1 wins the first game and an engine process dies in every
  later one.\<close>

definition win_then_crash :: EngineRun where
  "win_then_crash i sp c =
     (if i = 0 then Inr (Win, [''e2e4''], 100, ''checkmate'')
      else Inl (Error ''Engine crashed''))"

definition one_position :: MatchSet where
  "one_position =
     \<lparr>set_name = ''Standard'', set_description = None,
      startingPositions = [\<lparr>position_name = ''Initial Position'', position_description = None,
                             position_moves = [], fen = None\<rparr>],
      gamesPerPosition = 2\<rparr>"

definition crashed_game :: "Color \<Rightarrow> GameResult" where
  "crashed_game c =
     \<lparr>engine1Id = 1, engine2Id = 2, result = Errored, moves = None, duration = None,
      error = Some ''Engine crashed'', finalStatus = None,
      startingPosition = Some ''Initial Position'', matchSetName = Some ''Standard'',
      engine1Color = Some c, engine2Color = Some (other_color c)\<rparr>"

definition crashed_row :: "nat \<Rightarrow> Color \<Rightarrow> GameRow" where
  "crashed_row i c =
     \<lparr>game_id = i, engine1_id = 1, engine2_id = 2, winner_id = Some 2,
      is_draw = False, engine1_rating_before = 1500, engine2_rating_before = 1500,
      engine1_rating_after = None, engine2_rating_after = None,
      moves_col = None, duration_col = None, error_message = Some ''Engine crashed'',
      final_status = None, starting_position = Some ''Initial Position'',
      match_set_name = Some ''Standard'',
      engine1_color = Some c, engine2_color = Some (other_color c)\<rparr>"

text \<open>The game that engine 1 wins in the run \<open>win_then_crash\<close>.\<close>

definition won_game :: GameResult where
  "won_game =
     \<lparr>engine1Id = 1, engine2Id = 2, result = Win, moves = Some [''e2e4''], duration = Some 100,
      error = None, finalStatus = Some ''checkmate'',
      startingPosition = Some ''Initial Position'', matchSetName = Some ''Standard'',
      engine1Color = Some White, engine2Color = Some Black\<rparr>"

text \<open>The table of two engines with both ratings lowered by 16 and the two crashed games
  recorded.\<close>

definition after_crashes :: Database where
  "after_crashes =
     \<lparr>engines = [\<lparr>id_col = 1, name = ''Alpha'', description = None, rating = 1484,
                    games_played = 0, wins = 0, losses = 0, draws = 0\<rparr>,
                  \<lparr>id_col = 2, name = ''Beta'', description = None, rating = 1484,
                    games_played = 0, wins = 0, losses = 0, draws = 0\<rparr>],
      games = [crashed_row 1 White, crashed_row 2 Black],
      engines_id_seq = 2, games_id_seq = 2\<rparr>"

text \<open>A game with nothing but the two engines and the result, as the tests pass it.\<close>

definition plain_game :: "nat \<Rightarrow> nat \<Rightarrow> Outcome \<Rightarrow> GameResult" where
  "plain_game a b r =
     \<lparr>engine1Id = a, engine2Id = b, result = r, moves = None, duration = None,
      error = None, finalStatus = None, startingPosition = None, matchSetName = None,
      engine1Color = None, engine2Color = None\<rparr>"

text \<open>The row that such a game leaves in \<open>games\<close> while both ratings are 1500.\<close>

definition plain_row :: "nat \<Rightarrow> nat \<Rightarrow> nat \<Rightarrow> nat option \<Rightarrow> GameRow" where
  "plain_row i a b w =
     \<lparr>game_id = i, engine1_id = a, engine2_id = b, winner_id = w,
      is_draw = False, engine1_rating_before = 1500, engine2_rating_before = 1500,
      engine1_rating_after = None, engine2_rating_after = None,
      moves_col = None, duration_col = None, error_message = None,
      final_status = None, starting_position = None, match_set_name = None,
      engine1_color = None, engine2_color = None\<rparr>"

text \<open>Two games of engine 1 against engine 2 recorded without a rating update, as a
  match set records them; then one game entered with the engines in the other order and
  recorded with the default, as the \<open>play-game\<close> command does.\<close>

definition played_twice :: Database where
  "played_twice =
     snd (recordGames correctly_rounded two_engines [plain_game 1 2 Win, plain_game 1 2 Loss])"

definition played_mirrored :: Database where
  "played_mirrored =
     snd (recordGameResult correctly_rounded played_twice (plain_game 2 1 Win) None)"

text \<open>Two servers: one returns rows of equal rating in the order of the table, the other
  in the opposite order.\<close>

definition table_order :: "EngineRow list \<Rightarrow> EngineRow list" where
  "table_order es = sort_key (\<lambda>e. - rating e) es"

definition reverse_order :: "EngineRow list \<Rightarrow> EngineRow list" where
  "reverse_order es = rev (sort_key rating es)"

text \<open>The row of the rankings for an engine that was added with the default rating and
  has not played.\<close>

definition ranking_row :: "string \<Rightarrow> string option option \<Rightarrow> RankingRow" where
  "ranking_row n d =
     \<lparr>row_name = n, row_rating = 1500, row_games_played = 0, row_wins = 0, row_losses = 0,
      row_draws = 0, row_description = d\<rparr>"

text \<open>A start without a configuration file: no file at all, no \<open>ENGINES_CONFIG\<close>, the
  tables just created.\<close>

definition fresh_world :: World where
  "fresh_world = \<lparr>pool = initializeDatabase None, console = []\<rparr>"

section \<open>Rounding to the nearest double\<close>

text \<open>
  The powers of two and the two roundings first. Then the three facts on \<open>binary64\<close> that
  the rest uses: a number of at most 53 significant bits is left unchanged
  (\<open>binary64_exact\<close>), a number strictly between two half-way points goes to the double
  between them (\<open>binary64_nearest\<close>), and the error of the rounding is at most
  \<open>2^-53\<close> of the number, or half the spacing of the subnormal doubles
  (\<open>binary64_error\<close>).
\<close>

lemma pow2_powr: "pow2 k = 2 powr (real_of_int k)"
proof (cases "0 \<le> k")
  case True
  then have "real_of_int k = real (nat k)" by simp
  then have "(2::real) powr (real_of_int k) = 2 ^ nat k"
    by (simp only: powr_realpow [of 2 "nat k", simplified])
  with True show ?thesis by (simp add: pow2_def)
next
  case False
  then have "real_of_int k = - real (nat (- k))" by simp
  then have "(2::real) powr (real_of_int k) = 1 / 2 ^ nat (- k)"
    by (simp only: powr_minus_divide powr_realpow [of 2 "nat (- k)", simplified])
  with False show ?thesis by (simp add: pow2_def)
qed

lemma pow2_pos [simp]: "0 < pow2 k"
  by (simp add: pow2_powr)

lemma pow2_add: "pow2 (a + b) = pow2 a * pow2 b"
  by (simp add: pow2_powr powr_add)

lemma pow2_diff: "pow2 (a - b) = pow2 a / pow2 b"
  by (simp add: pow2_powr powr_diff)

lemma pow2_mono: "a \<le> b \<Longrightarrow> pow2 a \<le> pow2 b"
  by (simp add: pow2_powr)

lemma pow2_less: "a < b \<Longrightarrow> pow2 a < pow2 b"
  by (simp add: pow2_powr)

lemma pow2_nat: "0 \<le> k \<Longrightarrow> pow2 k = of_int (2 ^ nat k)"
  by (simp add: pow2_def)


lemma log2_floor_bounds:
  assumes "0 < x"
  shows "pow2 \<lfloor>log 2 x\<rfloor> \<le> x" and "x < pow2 (\<lfloor>log 2 x\<rfloor> + 1)"
proof -
  have "real_of_int \<lfloor>log 2 x\<rfloor> \<le> log 2 x" by simp
  then have "2 powr real_of_int \<lfloor>log 2 x\<rfloor> \<le> x"
    using le_log_iff [of 2 x "real_of_int \<lfloor>log 2 x\<rfloor>"] assms by simp
  then show "pow2 \<lfloor>log 2 x\<rfloor> \<le> x" by (simp only: pow2_powr)
  have "log 2 x < real_of_int (\<lfloor>log 2 x\<rfloor> + 1)" by simp
  then have "x < 2 powr real_of_int (\<lfloor>log 2 x\<rfloor> + 1)"
    using log_less_iff [of 2 x "real_of_int (\<lfloor>log 2 x\<rfloor> + 1)"] assms by simp
  then show "x < pow2 (\<lfloor>log 2 x\<rfloor> + 1)" by (simp only: pow2_powr)
qed

lemma round_half_even_int [simp]: "round_half_even (of_int m) = m"
  by (simp add: round_half_even_def)

lemma round_half_even_error: "\<bar>of_int (round_half_even x) - x\<bar> \<le> 1 / 2"
  unfolding round_half_even_def Let_def by (auto; linarith)



lemma pow2_less_D: "pow2 a < pow2 b \<Longrightarrow> a < b"
  by (simp add: pow2_powr)

lemma pow2_neq0 [simp]: "pow2 k \<noteq> 0"
  using pow2_pos [of k] by linarith

lemma pow2_abs [simp]: "\<bar>pow2 k\<bar> = pow2 k"
  using pow2_pos [of k] by linarith

lemma pow2_nonneg [simp]: "0 \<le> pow2 k"
  using pow2_pos [of k] by linarith

lemma pow2_le_D: "pow2 a \<le> pow2 b \<Longrightarrow> a \<le> b"
  by (simp add: pow2_powr)

lemma round_half_even_spec:
  "\<bar>of_int (round_half_even x) - x\<bar> < 1 / 2
   \<or> (\<bar>of_int (round_half_even x) - x\<bar> = 1 / 2 \<and> even (round_half_even x))"
  unfolding round_half_even_def Let_def by (auto; linarith)

lemma round_half_even_unique:
  assumes "\<bar>of_int m - x\<bar> < 1 / 2 \<or> (\<bar>of_int m - x\<bar> = 1 / 2 \<and> even m)"
  shows "round_half_even x = m"
proof -
  let ?r = "round_half_even x"
  have s: "\<bar>of_int ?r - x\<bar> < 1 / 2 \<or> (\<bar>of_int ?r - x\<bar> = 1 / 2 \<and> even ?r)"
    by (rule round_half_even_spec)
  have "\<bar>real_of_int ?r - real_of_int m\<bar> \<le> 1" using s assms by linarith
  then have "\<bar>real_of_int (?r - m)\<bar> \<le> 1" by simp
  then have d: "\<bar>?r - m\<bar> \<le> 1" by linarith
  show ?thesis
  proof (rule ccontr)
    assume n: "?r \<noteq> m"
    with d have c: "?r = m + 1 \<or> ?r = m - 1" by linarith
    then have "\<bar>real_of_int ?r - real_of_int m\<bar> = 1" by auto
    with s assms have "even ?r \<and> even m" by linarith
    with c show False by auto
  qed
qed

lemma round_half_even_minus: "round_half_even (- x) = - round_half_even x"
proof (rule round_half_even_unique)
  have "\<bar>real_of_int (- round_half_even x) - - x\<bar> = \<bar>real_of_int (round_half_even x) - x\<bar>"
    by simp
  then show "\<bar>real_of_int (- round_half_even x) - - x\<bar> < 1 / 2 \<or>
    \<bar>real_of_int (- round_half_even x) - - x\<bar> = 1 / 2 \<and> even (- round_half_even x)"
    using round_half_even_spec [of x] by simp
qed

lemma round_half_even_nonneg: "0 \<le> x \<Longrightarrow> 0 \<le> round_half_even x"
  unfolding round_half_even_def Let_def by (auto; linarith)

lemma exponent_minus [simp]: "exponent (- x) = exponent x"
  by (simp add: exponent_def)

lemma binary64_minus: "binary64 (- x) = num_neg (binary64 x)"
  by (simp add: binary64_def Let_def round_half_even_minus)


text \<open>The unit in the last place of x is at most 2^-52 |x|, or the subnormal spacing.\<close>

lemma ulp_bound:
  assumes "x \<noteq> 0"
  shows "pow2 (exponent x - 52) \<le> \<bar>x\<bar> / 2 ^ 52 \<or> pow2 (exponent x - 52) = pow2 (- 1074)"
proof (cases "- 1022 \<le> \<lfloor>log 2 \<bar>x\<bar>\<rfloor>")
  case True
  then have e: "exponent x = \<lfloor>log 2 \<bar>x\<bar>\<rfloor>" by (simp add: exponent_def)
  have "pow2 \<lfloor>log 2 \<bar>x\<bar>\<rfloor> \<le> \<bar>x\<bar>" using assms by (intro log2_floor_bounds) simp
  then have "pow2 (exponent x) / 2 ^ 52 \<le> \<bar>x\<bar> / 2 ^ 52"
    by (simp only: e divide_right_mono zero_le_numeral zero_le_power)
  moreover have "pow2 (exponent x - 52) = pow2 (exponent x) / 2 ^ 52"
    by (simp add: pow2_diff) (simp add: pow2_def)
  ultimately show ?thesis by simp
next
  case False
  then have "exponent x = - 1022" by (simp add: exponent_def)
  then show ?thesis by simp
qed

lemma binary64_pos:
  assumes "0 < x"
  shows "(\<exists>y. binary64 x = Finite y \<and> 0 \<le> y \<and> \<bar>y - x\<bar> \<le> x / 2 ^ 53 + pow2 (- 1075))
         \<or> (binary64 x = PosInfinity \<and> pow2 1023 \<le> x)"
proof -
  define u where "u = pow2 (exponent x - 52)"
  define y where "y = real_of_int (round_half_even (x / u)) * u"
  have u: "0 < u" by (simp add: u_def)
  have "\<bar>real_of_int (round_half_even (x / u)) - x / u\<bar> \<le> 1 / 2"
    by (rule round_half_even_error)
  then have "\<bar>real_of_int (round_half_even (x / u)) - x / u\<bar> * u \<le> 1 / 2 * u"
    using u by (simp only: mult_right_mono less_imp_le)
  then have "\<bar>(real_of_int (round_half_even (x / u)) - x / u) * u\<bar> \<le> u / 2"
    using u by (simp add: abs_mult)
  then have err: "\<bar>y - x\<bar> \<le> u / 2"
    using u by (simp add: y_def left_diff_distrib)
  have "0 \<le> x / u" using assms u by simp
  then have "0 \<le> round_half_even (x / u)" by (rule round_half_even_nonneg)
  then have y0: "0 \<le> y" using u by (simp add: y_def)
  have h: "pow2 (- 1074) / 2 = pow2 (- 1075)"
    using pow2_diff [of "- 1074" 1] by (simp add: pow2_def)
  have "u \<le> \<bar>x\<bar> / 2 ^ 52 \<or> u = pow2 (- 1074)"
    unfolding u_def using assms by (intro ulp_bound) simp
  then have "u / 2 \<le> x / 2 ^ 53 \<or> u / 2 = pow2 (- 1075)"
    using assms h by auto
  moreover have "0 < pow2 (- 1075)" "0 \<le> x / 2 ^ 53" using assms by simp_all
  ultimately have ub: "u / 2 \<le> x / 2 ^ 53 + pow2 (- 1075)" by linarith
  have b: "binary64 x = (if pow2 1024 \<le> \<bar>y\<bar> then PosInfinity else Finite y)"
    using assms by (simp add: binary64_def Let_def u_def y_def)
  show ?thesis
  proof (cases "pow2 1024 \<le> \<bar>y\<bar>")
    case True
    have p: "pow2 1024 = 2 * pow2 1023" using pow2_add [of 1 1023] by (simp add: pow2_def)
    have q: "pow2 (- 1075) \<le> pow2 1023 / 2"
      using pow2_mono [of "- 1075" 1022] pow2_diff [of 1023 1] by (simp add: pow2_def)
    have "x / 2 ^ 53 \<le> x / 2" using assms by (simp add: field_simps)
    with True y0 err ub p q have "pow2 1023 \<le> x" by linarith
    with True b show ?thesis by simp
  next
    case False
    with b y0 err ub show ?thesis by auto
  qed
qed

lemma binary64_error:
  assumes "\<bar>x\<bar> < pow2 1023"
  shows "\<exists>y. binary64 x = Finite y \<and> \<bar>y - x\<bar> \<le> \<bar>x\<bar> / 2 ^ 53 + pow2 (- 1075)
           \<and> (0 \<le> x \<longrightarrow> 0 \<le> y) \<and> (x \<le> 0 \<longrightarrow> y \<le> 0)"
proof -
  consider "x = 0" | "0 < x" | "x < 0" by linarith
  then show ?thesis
  proof cases
    case 1
    then show ?thesis by (simp add: binary64_def less_imp_le)
  next
    case 2
    with binary64_pos [OF 2] assms show ?thesis by auto
  next
    case 3
    then have p: "0 < - x" by simp
    from binary64_pos [OF p] assms 3 obtain y where
      y: "binary64 (- x) = Finite y" "0 \<le> y" "\<bar>y - - x\<bar> \<le> - x / 2 ^ 53 + pow2 (- 1075)"
      by auto
    have "binary64 x = num_neg (binary64 (- x))" using binary64_minus [of "- x"] by simp
    then have "binary64 x = Finite (- y)" by (simp add: y(1))
    moreover have "\<bar>- y - x\<bar> \<le> \<bar>x\<bar> / 2 ^ 53 + pow2 (- 1075)" using y(3) 3 by simp
    ultimately show ?thesis using y(2) 3 by auto
  qed
qed

text \<open>Numbers with at most 53 significant bits in the exponent range are left unchanged.\<close>

lemma binary64_exact:
  assumes "\<bar>m\<bar> < 2 ^ 53" and "- 1074 \<le> k" and "k \<le> 970"
  shows "binary64 (of_int m * pow2 k) = Finite (of_int m * pow2 k)"
proof (cases "m = 0")
  case True
  then show ?thesis by (simp add: binary64_def)
next
  case False
  define x where "x = real_of_int m * pow2 k"
  have x0: "x \<noteq> 0" using False by (simp add: x_def)
  have ax: "\<bar>x\<bar> = real_of_int \<bar>m\<bar> * pow2 k" by (simp add: x_def abs_mult)
  have "1 \<le> \<bar>m\<bar>" using False by linarith
  then have "1 \<le> real_of_int \<bar>m\<bar>" by linarith
  then have "1 * pow2 k \<le> real_of_int \<bar>m\<bar> * pow2 k"
    by (intro mult_right_mono) simp_all
  then have lo: "pow2 k \<le> \<bar>x\<bar>" by (simp add: ax)
  have "real_of_int \<bar>m\<bar> < real_of_int (2 ^ 53)"
    using assms(1) by (simp only: of_int_less_iff)
  then have "real_of_int \<bar>m\<bar> < 2 ^ 53" by simp
  then have "real_of_int \<bar>m\<bar> * pow2 k < 2 ^ 53 * pow2 k"
    by (intro mult_strict_right_mono) simp_all
  moreover have "pow2 (k + 53) = 2 ^ 53 * pow2 k"
    using pow2_add [of 53 k] by (simp add: pow2_def add.commute)
  ultimately have hi: "\<bar>x\<bar> < pow2 (k + 53)" by (simp add: ax)
  define L where "L = \<lfloor>log 2 \<bar>x\<bar>\<rfloor>"
  have Lb: "pow2 L \<le> \<bar>x\<bar>" "\<bar>x\<bar> < pow2 (L + 1)"
    unfolding L_def using x0 by (simp_all add: log2_floor_bounds)
  have "pow2 L < pow2 (k + 53)" using Lb(1) hi by linarith
  then have L1: "L \<le> k + 52" using pow2_less_D [of L "k + 53"] by simp
  define e where "e = exponent x"
  have e: "e \<le> k + 52" using L1 assms(2) by (simp add: e_def exponent_def L_def)
  define n where "n = nat (k + 52 - e)"
  have "pow2 k / pow2 (e - 52) = pow2 (k - (e - 52))" by (simp add: pow2_diff)
  also have "k - (e - 52) = int n" using e by (simp add: n_def)
  also have "pow2 (int n) = 2 ^ n" by (simp add: pow2_def)
  finally have q: "pow2 k / pow2 (e - 52) = 2 ^ n" .
  have "x / pow2 (e - 52) = real_of_int m * (pow2 k / pow2 (e - 52))" by (simp add: x_def)
  then have "x / pow2 (e - 52) = real_of_int (m * 2 ^ n)" by (simp add: q)
  then have r: "real_of_int (round_half_even (x / pow2 (e - 52))) = x / pow2 (e - 52)"
    by (simp only: round_half_even_int)
  have y: "real_of_int (round_half_even (x / pow2 (e - 52))) * pow2 (e - 52) = x"
    by (simp add: r)
  have "pow2 (k + 53) \<le> pow2 1023" using assms(3) by (intro pow2_mono) simp
  moreover have "pow2 1023 < pow2 1024" by (intro pow2_less) simp
  ultimately have "\<not> pow2 1024 \<le> \<bar>x\<bar>" using hi by linarith
  then have "binary64 x = Finite x"
    using x0 y by (simp add: binary64_def Let_def e_def [symmetric])
  then show ?thesis by (simp only: x_def)
qed

lemma binary64_int: "\<bar>i\<bar> < 2 ^ 53 \<Longrightarrow> binary64 (of_int i) = Finite (of_int i)"
  using binary64_exact [of i 0] by (simp add: pow2_def)



lemma binary64_0 [simp]: "binary64 0 = Finite 0"
  by (simp add: binary64_def)

lemma binary64_1 [simp]: "binary64 1 = Finite 1"
  using binary64_int [of 1] by simp

lemma binary64_numeral [simp]:
  "(numeral n :: int) < 2 ^ 53 \<Longrightarrow> binary64 (numeral n) = Finite (numeral n)"
  using binary64_int [of "numeral n"] by simp

lemma binary64_neg_numeral [simp]:
  "(numeral n :: int) < 2 ^ 53 \<Longrightarrow> binary64 (- numeral n) = Finite (- numeral n)"
  using binary64_int [of "- numeral n"] by simp

lemma binary64_dyadic:
  "\<bar>m\<bar> < 2 ^ 53 \<Longrightarrow> k \<le> 1074 \<Longrightarrow> binary64 (of_int m / 2 ^ k) = Finite (of_int m / 2 ^ k)"
proof -
  assume m: "\<bar>m\<bar> < 2 ^ 53" and k: "k \<le> 1074"
  have p: "pow2 (- int k) = 1 / 2 ^ k" by (cases "k = 0") (simp_all add: pow2_def)
  from binary64_exact [of m "- int k"] m k show ?thesis by (simp add: p)
qed

lemma binary64_half [simp]: "binary64 (1 / 2) = Finite (1 / 2)"
  using binary64_dyadic [of 1 1] by simp

lemma binary64_neg_half [simp]: "binary64 (- (1 / 2)) = Finite (- (1 / 2))"
  using binary64_dyadic [of "- 1" 1] by simp

lemma Number_int: "\<bar>i\<bar> < 2 ^ 53 \<Longrightarrow> Number i = Finite (of_int i)"
  by (simp add: Number_def binary64_int)

lemma Number_numeral [simp]: "(numeral n :: int) < 2 ^ 53 \<Longrightarrow> Number (numeral n) = Finite (numeral n)"
  using Number_int [of "numeral n"] by simp


section \<open>The doubles of three examples\<close>




























section \<open>The rounding errors of the rating rule\<close>

text \<open>
  How far the doubles of the rating rule are from the real numbers of the specification:
  the exponent \<open>(R2 - R1) / 400\<close>, the power of 10, the expected score, the actual
  score, and the product with \<open>K = 32\<close>, which is the number that \<open>Math.round\<close> rounds.
\<close>

lemma tiny: "pow2 (- 1075) \<le> 1 / 2 ^ 60"
proof -
  have "pow2 (- 1075) \<le> pow2 (- 60)" by (rule pow2_mono) simp
  moreover have "pow2 (- 60) = 1 / 2 ^ 60" by (simp add: pow2_def)
  ultimately show ?thesis by simp
qed

lemma huge: "2 ^ 60 \<le> pow2 1023"
proof -
  have "pow2 60 \<le> pow2 1023" by (rule pow2_mono) simp
  moreover have "pow2 60 = 2 ^ 60" by (simp add: pow2_def)
  ultimately show ?thesis by simp
qed

lemma root_bound:
  fixes x :: real
  assumes "0 < n" and "10 \<le> 1 + real n * x" and "0 \<le> x"
  shows "10 powr (1 / real n) \<le> 1 + x"
proof -
  have "1 + real n * x \<le> (1 + x) ^ n" using assms(3) by (intro Bernoulli_inequality) simp
  then have "10 \<le> (1 + x) ^ n" using assms(2) by linarith
  also have "(1 + x) ^ n = (1 + x) powr real n" using assms(3) by (simp add: powr_realpow)
  finally have "10 powr (1 / real n) \<le> ((1 + x) powr real n) powr (1 / real n)"
    by (intro powr_mono2) simp_all
  also have "((1 + x) powr real n) powr (1 / real n) = (1 + x) powr (real n * (1 / real n))"
    by (simp only: powr_powr)
  also have "\<dots> = 1 + x" using assms(1,3) by simp
  finally show ?thesis .
qed

lemma ten_powr_root: "(10::real) powr (1 / 1048576) \<le> 1 + 1 / 1024"
  using root_bound [of 1048576 "1 / 1024"] by simp

lemma ten_powr_small:
  fixes d :: real
  assumes "\<bar>d\<bar> \<le> 1 / 1048576"
  shows "\<bar>10 powr d - 1\<bar> \<le> 1 / 1024"
proof -
  have "10 powr d \<le> 10 powr (1 / 1048576)" using assms by (intro powr_mono) simp_all
  then have up: "10 powr d \<le> 1 + 1 / 1024" using ten_powr_root by linarith
  have "10 powr (- d) \<le> 10 powr (1 / 1048576)" using assms by (intro powr_mono) simp_all
  moreover have "(10::real) powr (1 / 1048576) \<le> 1025 / 1024" using ten_powr_root by simp
  ultimately have q: "10 powr (- d) \<le> 1025 / 1024" by linarith
  have p: "0 < 10 powr (- d)" by simp
  have e: "10 powr d = 1 / 10 powr (- d)" by (simp add: powr_minus_divide)
  have "1024 / 1025 \<le> 1 / 10 powr (- d)"
    using q p by (simp add: field_simps)
  then have "1 - 1 / 1024 \<le> 10 powr d" using e by simp
  with up show ?thesis by linarith
qed

lemma recip_diff:
  fixes a b :: real
  assumes "0 \<le> a" and "0 \<le> b"
  shows "\<bar>1 / (1 + a) - 1 / (1 + b)\<bar> \<le> \<bar>a - b\<bar> / (1 + b)"
proof -
  have "1 / (1 + a) - 1 / (1 + b) = (b - a) / ((1 + a) * (1 + b))"
    using assms by (simp add: field_simps)
  then have "\<bar>1 / (1 + a) - 1 / (1 + b)\<bar> = \<bar>a - b\<bar> / ((1 + a) * (1 + b))"
    using assms by (simp add: abs_mult abs_minus_commute)
  also have "\<dots> \<le> \<bar>a - b\<bar> / (1 + b)"
  proof (rule frac_le)
    show "0 \<le> \<bar>a - b\<bar>" by simp
    show "\<bar>a - b\<bar> \<le> \<bar>a - b\<bar>" by simp
    show "0 < 1 + b" using assms by simp
    have "1 * (1 + b) \<le> (1 + a) * (1 + b)" using assms by (intro mult_right_mono) simp_all
    then show "1 + b \<le> (1 + a) * (1 + b)" by simp
  qed
  finally show ?thesis .
qed

text \<open>The effect of the rounded exponent on the expected score.\<close>

lemma expected_shift:
  fixes x x' :: real
  assumes "\<bar>x' - x\<bar> \<le> 1 / 1048576"
  shows "\<bar>1 / (1 + 10 powr x') - 1 / (1 + 10 powr x)\<bar> \<le> 1 / 1024"
proof -
  let ?P = "10 powr x" and ?P' = "10 powr x'"
  have P: "0 < ?P" by simp
  have "?P' = ?P * 10 powr (x' - x)" by (simp add: powr_add [symmetric])
  then have "?P' - ?P = ?P * (10 powr (x' - x) - 1)" by (simp add: algebra_simps)
  then have "\<bar>?P' - ?P\<bar> = ?P * \<bar>10 powr (x' - x) - 1\<bar>" by (simp add: abs_mult)
  also have "\<dots> \<le> ?P * (1 / 1024)"
    using ten_powr_small [OF assms] by (intro mult_left_mono) simp_all
  finally have d: "\<bar>?P' - ?P\<bar> \<le> ?P / 1024" by simp
  have "\<bar>1 / (1 + ?P') - 1 / (1 + ?P)\<bar> \<le> \<bar>?P' - ?P\<bar> / (1 + ?P)"
    by (intro recip_diff) simp_all
  also have "\<dots> \<le> (?P / 1024) / (1 + ?P)" using d P by (intro divide_right_mono) simp_all
  also have "\<dots> = (?P / (1 + ?P)) / 1024" by simp
  also have "\<dots> \<le> 1 / 1024"
  proof -
    have "0 < 1 + ?P" using P by linarith
    then have "?P / (1 + ?P) \<le> 1" by (simp add: divide_le_eq_1)
    from divide_right_mono [OF this, of 1024] show ?thesis by simp
  qed
  finally show ?thesis .
qed

lemma accurate_cases:
  assumes "accurate hp"
  obtains q where "hp 10 v = Finite q" and "0 \<le> q"
      and "\<bar>q - 10 powr v\<bar> \<le> (1 + 10 powr v) / 2048"
    | "hp 10 v = PosInfinity" and "2047 \<le> 10 powr v"
proof -
  from assms have c: "case hp 10 v of
            Finite q \<Rightarrow> 0 \<le> q \<and> \<bar>q - 10 powr v\<bar> \<le> (1 + 10 powr v) / 2048
          | PosInfinity \<Rightarrow> 2047 \<le> 10 powr v
          | _ \<Rightarrow> False"
    by (simp add: accurate_def)
  show ?thesis
  proof (cases "hp 10 v")
    case (Finite q)
    with c that(1) show ?thesis by simp
  next
    case PosInfinity
    with c that(2) show ?thesis by simp
  next
    case NegInfinity
    with c show ?thesis by simp
  next
    case NaN
    with c show ?thesis by simp
  qed
qed

text \<open>The quotient \<open>1 / (1 + q)\<close> in doubles.\<close>

lemma reciprocal_rounded:
  assumes "0 \<le> q"
  shows "\<exists>e. num_div (Finite 1) (num_add (Finite 1) (Finite q)) = Finite e \<and> 0 \<le> e
             \<and> \<bar>e - 1 / (1 + q)\<bar> \<le> 1 / 2 ^ 50"
proof -
  define t where "t = 1 + q"
  have t1: "1 \<le> t" using assms by (simp add: t_def)
  then have t0: "0 < t" by linarith
  from binary64_pos [OF t0] show ?thesis
  proof
    assume "\<exists>y. binary64 t = Finite y \<and> 0 \<le> y \<and> \<bar>y - t\<bar> \<le> t / 2 ^ 53 + pow2 (- 1075)"
    then obtain s where s: "binary64 t = Finite s" "0 \<le> s"
      "\<bar>s - t\<bar> \<le> t / 2 ^ 53 + pow2 (- 1075)" by blast
    define c :: real where "c = 1 / 2 ^ 53 + 1 / 2 ^ 60"
    have "t / 2 ^ 53 + pow2 (- 1075) \<le> t / 2 ^ 53 + t / 2 ^ 60"
      using tiny t1 by (simp add: field_simps)
    also have "\<dots> = c * t" by (simp add: c_def algebra_simps)
    finally have d: "\<bar>s - t\<bar> \<le> c * t" using s(3) by linarith
    have c4: "c \<le> 1 / 4" by (simp add: c_def)
    have "c * t \<le> (1 / 4) * t" using c4 t0 by (intro mult_right_mono) simp_all
    with d have s2: "t / 2 \<le> s" by linarith
    then have s0: "0 < s" using t0 by linarith
    define r where "r = 1 / s"
    have r0: "0 < r" using s0 by (simp add: r_def)
    have "1 / s \<le> 1 / (t / 2)" using s2 t0 by (intro divide_left_mono) simp_all
    also have "\<dots> \<le> 2" using t1 t0 by (simp add: field_simps)
    finally have r2: "r \<le> 2" by (simp add: r_def)
    have "\<bar>r\<bar> < pow2 1023" using r0 r2 huge by simp
    from binary64_error [OF this] obtain e where e: "binary64 r = Finite e"
      "\<bar>e - r\<bar> \<le> \<bar>r\<bar> / 2 ^ 53 + pow2 (- 1075)" "0 \<le> r \<longrightarrow> 0 \<le> e" by blast
    have "\<bar>r\<bar> / 2 ^ 53 \<le> 2 / 2 ^ 53" using r0 r2 by (intro divide_right_mono) simp_all
    with e(2) tiny have er: "\<bar>e - r\<bar> \<le> 2 / 2 ^ 53 + 1 / 2 ^ 60" by linarith
    have st: "0 < s * t" using s0 t0 by simp
    have "r - 1 / t = (t - s) / (s * t)" using s0 t0 by (simp add: r_def field_simps)
    then have "\<bar>r - 1 / t\<bar> = \<bar>s - t\<bar> / (s * t)"
      using st by (simp add: abs_minus_commute)
    also have "\<dots> \<le> (c * t) / (s * t)" using d st by (intro divide_right_mono) simp_all
    also have "\<dots> = c / s" using t0 by simp
    also have "\<dots> = c * r" by (simp add: r_def)
    also have "\<dots> \<le> c * 2" using r2 by (intro mult_left_mono) (simp_all add: c_def)
    finally have rt: "\<bar>r - 1 / t\<bar> \<le> 2 * c" by simp
    have "\<bar>e - 1 / t\<bar> \<le> \<bar>e - r\<bar> + \<bar>r - 1 / t\<bar>" by linarith
    also have "\<dots> \<le> 2 / 2 ^ 53 + 1 / 2 ^ 60 + 2 * c" using er rt by linarith
    also have "\<dots> \<le> 1 / 2 ^ 50" by (simp add: c_def)
    finally have "\<bar>e - 1 / (1 + q)\<bar> \<le> 1 / 2 ^ 50" by (simp add: t_def)
    moreover have "num_div (Finite 1) (num_add (Finite 1) (Finite q)) = Finite e"
      using s(1) s0 e(1) by (simp add: t_def r_def)
    moreover have "0 \<le> e" using e(3) r0 by simp
    ultimately show ?thesis by blast
  next
    assume i: "binary64 t = PosInfinity \<and> pow2 1023 \<le> t"
    then have "2 ^ 60 \<le> t" using huge by linarith
    then have "1 / t \<le> 1 / 2 ^ 60" using t0 by (intro divide_left_mono) simp_all
    moreover have "(1::real) / 2 ^ 60 \<le> 1 / 2 ^ 50" by simp
    moreover have "0 < 1 / t" using t0 by simp
    ultimately have "\<bar>0 - 1 / (1 + q)\<bar> \<le> 1 / 2 ^ 50" by (simp add: t_def)
    moreover have "num_div (Finite 1) (num_add (Finite 1) (Finite q)) = Finite 0"
      using i by (simp add: t_def)
    ultimately show ?thesis by blast
  qed
qed

lemma host_expected:
  assumes "accurate hp"
  shows "\<exists>e. num_div (Finite 1) (num_add (Finite 1) (hp 10 v)) = Finite e \<and> 0 \<le> e
             \<and> \<bar>e - 1 / (1 + 10 powr v)\<bar> \<le> 1 / 2048 + 1 / 2 ^ 50"
proof -
  let ?P = "10 powr v :: real"
  have P: "0 < ?P" by simp
  from assms show ?thesis
  proof (cases rule: accurate_cases [where v = v])
    case (1 q)
    from reciprocal_rounded [OF 1(2)] obtain e where
      e: "num_div (Finite 1) (num_add (Finite 1) (Finite q)) = Finite e" "0 \<le> e"
         "\<bar>e - 1 / (1 + q)\<bar> \<le> 1 / 2 ^ 50" by blast
    have "\<bar>1 / (1 + q) - 1 / (1 + ?P)\<bar> \<le> \<bar>q - ?P\<bar> / (1 + ?P)"
      using 1(2) by (intro recip_diff) simp_all
    also have "\<dots> \<le> ((1 + ?P) / 2048) / (1 + ?P)"
      using 1(3) P by (intro divide_right_mono) simp_all
    also have "\<dots> = 1 / 2048"
    proof -
      have "1 + ?P \<noteq> 0" using P by linarith
      then show ?thesis by simp
    qed
    finally have "\<bar>e - 1 / (1 + ?P)\<bar> \<le> 1 / 2048 + 1 / 2 ^ 50" using e(3) by linarith
    with e(1,2) 1(1) show ?thesis by auto
  next
    case 2
    have "1 / (1 + ?P) \<le> 1 / 2048" using 2(2) by (intro divide_left_mono) simp_all
    moreover have "0 < 1 + ?P" using P by linarith
    then have "0 < 1 / (1 + ?P)" by simp
    moreover have "(0::real) \<le> 1 / 2 ^ 50" by simp
    ultimately have "\<bar>0 - 1 / (1 + ?P)\<bar> \<le> 1 / 2048 + 1 / 2 ^ 50" by linarith
    moreover have "num_div (Finite 1) (num_add (Finite 1) (hp 10 v)) = Finite 0"
      by (simp add: 2(1))
    ultimately show ?thesis by blast
  qed
qed

lemma exponent_rounded:
  assumes "d \<noteq> 0" and "\<bar>d\<bar> \<le> 2 ^ 32"
  shows "\<exists>x'. num_div (Finite (of_int d)) (Finite 400) = Finite x' \<and> x' \<noteq> 0
              \<and> \<bar>x' - of_int d / 400\<bar> \<le> 1 / 1048576"
proof -
  define x :: real where "x = of_int d / 400"
  have "1 \<le> \<bar>d\<bar>" using assms(1) by linarith
  then have "1 \<le> \<bar>real_of_int d\<bar>" by linarith
  then have lo: "1 / 400 \<le> \<bar>x\<bar>" by (simp add: x_def)
  have "real_of_int \<bar>d\<bar> \<le> real_of_int (2 ^ 32)" using assms(2) by (simp only: of_int_le_iff)
  then have "\<bar>real_of_int d\<bar> \<le> 2 ^ 32" by simp
  then have hi: "\<bar>x\<bar> \<le> 2 ^ 32 / 400" by (simp add: x_def)
  have "\<bar>x\<bar> < pow2 1023" using hi huge by simp
  from binary64_error [OF this] obtain x' where x': "binary64 x = Finite x'"
      "\<bar>x' - x\<bar> \<le> \<bar>x\<bar> / 2 ^ 53 + pow2 (- 1075)" by blast
  have b: "\<bar>x' - x\<bar> \<le> \<bar>x\<bar> / 2 ^ 53 + 1 / 2 ^ 60" using x'(2) tiny by linarith
  have "\<bar>x\<bar> / 2 ^ 53 \<le> (2 ^ 32 / 400) / 2 ^ 53" using hi by (intro divide_right_mono) simp_all
  with b have c: "\<bar>x' - x\<bar> \<le> 1 / 1048576" by simp
  have "\<bar>x\<bar> / 2 ^ 53 \<le> \<bar>x\<bar> / 2" by (simp add: field_simps)
  with b lo have "\<bar>x' - x\<bar> < \<bar>x\<bar>" by simp
  then have "x' \<noteq> 0" by auto
  moreover have "num_div (Finite (of_int d)) (Finite 400) = Finite x'"
    using x'(1) by (simp add: x_def)
  ultimately show ?thesis using c by (auto simp: x_def)
qed

lemma Number_int4: "int4 r \<Longrightarrow> Number r = Finite (of_int r)"
proof -
  assume "int4 r"
  then have "\<bar>r\<bar> < 2 ^ 53" unfolding int4_def by simp linarith
  then show ?thesis by (rule Number_int)
qed

lemma spec_E1_range: "0 < spec_E1 R1 R2" "spec_E1 R1 R2 < 1"
proof -
  have "0 < 10 powr ((real_of_int R2 - real_of_int R1) / 400)" by simp
  then show "0 < spec_E1 R1 R2" "spec_E1 R1 R2 < 1"
    unfolding spec_E1_def by (simp_all add: add_pos_pos)
qed

lemma spec_E1_swap: "spec_E1 R2 R1 = 1 - spec_E1 R1 R2"
proof -
  have g: "1 / (1 + 1 / y) = 1 - 1 / (1 + y)" if "0 < y" for y :: real
    using that by (simp add: field_simps)
  have "(real_of_int R1 - real_of_int R2) / 400 = - ((real_of_int R2 - real_of_int R1) / 400)"
    by argo
  then have "10 powr ((real_of_int R1 - real_of_int R2) / 400)
       = 1 / 10 powr ((real_of_int R2 - real_of_int R1) / 400)"
    by (simp only: powr_minus_divide)
  then show ?thesis
    unfolding spec_E1_def using g [of "10 powr ((real_of_int R2 - real_of_int R1) / 400)"] by simp
qed

text \<open>The expected score in doubles is within 1/600 of the expected score.\<close>

lemma expectedScore_close:
  assumes "accurate hp" and "int4 R1" and "int4 R2"
  shows "\<exists>e. num_div (Finite 1) (num_add (Finite 1)
                 (Math_pow hp 10 (num_div (num_sub (Number R2) (Number R1)) (Finite 400))))
               = Finite e
             \<and> 0 \<le> e \<and> \<bar>e - spec_E1 R1 R2\<bar> \<le> 1 / 600"
proof -
  define d where "d = R2 - R1"
  have db: "\<bar>d\<bar> \<le> 2 ^ 32" using assms(2,3) unfolding int4_def d_def by simp linarith
  then have "\<bar>d\<bar> < 2 ^ 53" by simp
  then have "binary64 (of_int d) = Finite (of_int d)" by (rule binary64_int)
  then have s: "num_sub (Number R2) (Number R1) = Finite (of_int d)"
    using assms(2,3) by (simp add: Number_int4 num_sub_def d_def)
  show ?thesis
  proof (cases "d = 0")
    case True
    then have h: "spec_E1 R1 R2 = 1 / 2" by (simp add: spec_E1_def d_def)
    have "num_div (Finite 1) (num_add (Finite 1)
                 (Math_pow hp 10 (num_div (num_sub (Number R2) (Number R1)) (Finite 400))))
               = Finite (1 / 2)"
      using True by (simp add: s Math_pow_def)
    moreover have "(0::real) \<le> 1 / 2 \<and> \<bar>1 / 2 - spec_E1 R1 R2\<bar> \<le> 1 / 600" by (simp add: h)
    ultimately show ?thesis by blast
  next
    case False
    from exponent_rounded [OF False db] obtain x' where
      x': "num_div (Finite (of_int d)) (Finite 400) = Finite x'" "x' \<noteq> 0"
          "\<bar>x' - of_int d / 400\<bar> \<le> 1 / 1048576" by blast
    from host_expected [OF assms(1), of x'] obtain e where
      e: "num_div (Finite 1) (num_add (Finite 1) (hp 10 x')) = Finite e" "0 \<le> e"
         "\<bar>e - 1 / (1 + 10 powr x')\<bar> \<le> 1 / 2048 + 1 / 2 ^ 50" by blast
    have "spec_E1 R1 R2 = 1 / (1 + 10 powr (of_int d / 400))" by (simp add: spec_E1_def d_def)
    with expected_shift [OF x'(3)] have
      "\<bar>1 / (1 + 10 powr x') - spec_E1 R1 R2\<bar> \<le> 1 / 1024" by simp
    moreover have "(1::real) / 2048 + 1 / 2 ^ 50 + 1 / 1024 \<le> 1 / 600" by simp
    ultimately have "\<bar>e - spec_E1 R1 R2\<bar> \<le> 1 / 600" using e(3) by linarith
    moreover have "num_div (Finite 1) (num_add (Finite 1)
                 (Math_pow hp 10 (num_div (num_sub (Number R2) (Number R1)) (Finite 400))))
               = Finite e"
      using x'(2) e(1) by (simp only: s x'(1)) (simp add: Math_pow_def)
    ultimately show ?thesis using e(2) by blast
  qed
qed

lemma binary64_bounded:
  assumes "\<bar>x\<bar> \<le> 2 ^ 33"
  shows "\<exists>y. binary64 x = Finite y \<and> \<bar>y - x\<bar> \<le> \<bar>x\<bar> / 2 ^ 53 + 1 / 2 ^ 60"
proof -
  have "(2::real) ^ 33 < 2 ^ 60" by simp
  then have "\<bar>x\<bar> < pow2 1023" using assms huge by linarith
  from binary64_error [OF this] tiny show ?thesis by force
qed

lemma actualScore_close:
  assumes "0 \<le> s" and "s \<le> real n" and "0 < n" and "n < 2 ^ 32"
  shows "\<exists>a. num_div (Finite s) (Number (int n)) = Finite a \<and> \<bar>a - s / real n\<bar> \<le> 1 / 2 ^ 50"
proof -
  have "int n < 2 ^ 32" using assms(4) by (metis of_nat_less_iff of_nat_numeral of_nat_power)
  then have "\<bar>int n\<bar> < 2 ^ 53" by simp
  then have N: "Number (int n) = Finite (real n)" using Number_int [of "int n"] by simp
  have q: "0 \<le> s / real n" "s / real n \<le> 1" using assms(1-3) by simp_all
  then have "\<bar>s / real n\<bar> \<le> 2 ^ 33" by simp
  from binary64_bounded [OF this] obtain a where
    a: "binary64 (s / real n) = Finite a" "\<bar>a - s / real n\<bar> \<le> \<bar>s / real n\<bar> / 2 ^ 53 + 1 / 2 ^ 60"
    by blast
  have "\<bar>s / real n\<bar> / 2 ^ 53 \<le> 1 / 2 ^ 53" using q by (intro divide_right_mono) simp_all
  moreover have "(1::real) / 2 ^ 53 + 1 / 2 ^ 60 \<le> 1 / 2 ^ 50" by simp
  ultimately have "\<bar>a - s / real n\<bar> \<le> 1 / 2 ^ 50" using a(2) by linarith
  moreover have "num_div (Finite s) (Number (int n)) = Finite a" using assms(3) a(1) by (simp add: N)
  ultimately show ?thesis by blast
qed

text \<open>The product \<open>K * (actual - expected)\<close> in doubles.\<close>

lemma surplus_close:
  assumes "\<bar>a - A\<bar> \<le> 1 / 2 ^ 50" and "\<bar>e - E\<bar> \<le> 1 / 512"
    and "0 \<le> A" and "A \<le> 1" and "0 \<le> E" and "E \<le> 1"
  shows "\<exists>y. num_mul (Finite 32) (num_sub (Finite a) (Finite e)) = Finite y
             \<and> \<bar>y\<bar> \<le> 64 \<and> \<bar>y - 32 * (A - E)\<bar> \<le> 1 / 10"
proof -
  have k: "(1::real) / 2 ^ 50 \<le> 1 / 512" by simp
  have z: "\<bar>a - e\<bar> \<le> 3 / 2" using assms k by linarith
  then have "\<bar>a - e\<bar> \<le> 2 ^ 33" by simp
  from binary64_bounded [OF this] obtain t where
    t: "binary64 (a - e) = Finite t" "\<bar>t - (a - e)\<bar> \<le> \<bar>a - e\<bar> / 2 ^ 53 + 1 / 2 ^ 60" by blast
  have "\<bar>a - e\<bar> / 2 ^ 53 \<le> (3 / 2) / 2 ^ 53" using z by (intro divide_right_mono) simp_all
  moreover have "(3 / 2 :: real) / 2 ^ 53 + 1 / 2 ^ 60 \<le> 1 / 2 ^ 50" by simp
  ultimately have t1: "\<bar>t - (a - e)\<bar> \<le> 1 / 2 ^ 50" using t(2) by linarith
  then have t2: "\<bar>t\<bar> \<le> 2" using z k by linarith
  then have "\<bar>32 * t\<bar> \<le> 2 ^ 33" by simp
  from binary64_bounded [OF this] obtain y where
    y: "binary64 (32 * t) = Finite y" "\<bar>y - 32 * t\<bar> \<le> \<bar>32 * t\<bar> / 2 ^ 53 + 1 / 2 ^ 60" by blast
  have "\<bar>32 * t\<bar> \<le> 64" using t2 by simp
  then have "\<bar>32 * t\<bar> / 2 ^ 53 \<le> 64 / 2 ^ 53" by (intro divide_right_mono) simp_all
  moreover have "(64 :: real) / 2 ^ 53 + 1 / 2 ^ 60 \<le> 1 / 2 ^ 40" by simp
  ultimately have y1: "\<bar>y - 32 * t\<bar> \<le> 1 / 2 ^ 40" using y(2) by linarith
  have y1': "\<bar>y - 32 * t\<bar> \<le> 1 / 1000000" using y1 by simp
  have t1': "\<bar>t - (a - e)\<bar> \<le> 1 / 1000000" using t1 by simp
  have a': "\<bar>a - A\<bar> \<le> 1 / 1000000" using assms(1) by simp
  have c: "\<bar>y - 32 * (A - E)\<bar> \<le> 1 / 10"
    using y1' t1' a' assms(2) by argo
  have "\<bar>y\<bar> \<le> 64" using c assms(3-6) by argo
  moreover note c
  moreover have "num_mul (Finite 32) (num_sub (Finite a) (Finite e)) = Finite y"
    using t(1) y(1) by (simp add: num_sub_def)
  ultimately show ?thesis by blast
qed

lemma rounding_close:
  assumes "\<bar>y' - y\<bar> \<le> 1 / 8"
  shows "\<bar>\<lfloor>y' + 1 / 2\<rfloor> - round y\<bar> \<le> 1" and "clear_of_tie y \<Longrightarrow> \<lfloor>y' + 1 / 2\<rfloor> = round y"
proof -
  have r: "round y = \<lfloor>y + 1 / 2\<rfloor>" by (simp add: round_def)
  have "real_of_int \<lfloor>y' + 1 / 2\<rfloor> \<le> y' + 1 / 2" "y' + 1 / 2 < real_of_int \<lfloor>y' + 1 / 2\<rfloor> + 1"
    "real_of_int \<lfloor>y + 1 / 2\<rfloor> \<le> y + 1 / 2" "y + 1 / 2 < real_of_int \<lfloor>y + 1 / 2\<rfloor> + 1"
    by linarith+
  with assms have "\<bar>real_of_int \<lfloor>y' + 1 / 2\<rfloor> - real_of_int \<lfloor>y + 1 / 2\<rfloor>\<bar> < 2" by linarith
  then have "\<bar>real_of_int (\<lfloor>y' + 1 / 2\<rfloor> - \<lfloor>y + 1 / 2\<rfloor>)\<bar> < 2" by simp
  then have "\<bar>\<lfloor>y' + 1 / 2\<rfloor> - \<lfloor>y + 1 / 2\<rfloor>\<bar> < 2" by linarith
  then show "\<bar>\<lfloor>y' + 1 / 2\<rfloor> - round y\<bar> \<le> 1" by (simp add: r)
  assume c: "clear_of_tie y"
  define k where "k = \<lfloor>y\<rfloor>"
  have kb: "real_of_int k \<le> y" "y < real_of_int k + 1" unfolding k_def by linarith+
  from c have c': "1 / 8 < \<bar>y - real_of_int k - 1 / 2\<bar>" by (simp add: clear_of_tie_def k_def)
  show "\<lfloor>y' + 1 / 2\<rfloor> = round y"
  proof (cases "y - real_of_int k < 1 / 2")
    case True
    with c' have f: "y - real_of_int k < 3 / 8" by linarith
    have "\<lfloor>y + 1 / 2\<rfloor> = k" using kb f by (intro floor_unique) linarith+
    moreover have "\<lfloor>y' + 1 / 2\<rfloor> = k" using kb f assms by (intro floor_unique) linarith+
    ultimately show ?thesis by (simp add: r)
  next
    case False
    with c' have f: "5 / 8 < y - real_of_int k" by linarith
    have "\<lfloor>y + 1 / 2\<rfloor> = k + 1"
      using kb f unfolding floor_eq_iff of_int_add of_int_1 by linarith
    moreover have "\<lfloor>y' + 1 / 2\<rfloor> = k + 1"
      using kb f assms unfolding floor_eq_iff of_int_add of_int_1 by linarith
    ultimately show ?thesis by (simp add: r)
  qed
qed

text \<open>The arithmetic of \<open>recordMatchSetResult\<close> in doubles: each change is the rounding of
  a number within 1/8 of the exact product.\<close>

lemma ratingChanges_close:
  assumes "accurate hp" and "int4 R1" and "int4 R2"
    and "0 \<le> s1" and "s1 \<le> real n" and "0 \<le> s2" and "s2 \<le> real n"
    and "0 < n" and "n < 2 ^ 32"
  shows "\<exists>y1 y2. ratingChanges hp (Number R1) (Number R2)
                    (num_div (Finite s1) (Number (int n))) (num_div (Finite s2) (Number (int n)))
                  = (Finite (of_int \<lfloor>y1 + 1 / 2\<rfloor>), Finite (of_int \<lfloor>y2 + 1 / 2\<rfloor>))
               \<and> \<bar>y1 - 32 * (s1 / real n - spec_E1 R1 R2)\<bar> \<le> 1 / 8
               \<and> \<bar>y2 - 32 * (s2 / real n - (1 - spec_E1 R1 R2))\<bar> \<le> 1 / 8"
proof -
  let ?E = "spec_E1 R1 R2"
  from expectedScore_close [OF assms(1-3)] obtain e1 where
    e1: "num_div (Finite 1) (num_add (Finite 1)
           (Math_pow hp 10 (num_div (num_sub (Number R2) (Number R1)) (Finite 400))))
         = Finite e1" "0 \<le> e1" "\<bar>e1 - ?E\<bar> \<le> 1 / 600" by blast
  have E: "0 \<le> ?E" "?E \<le> 1" using spec_E1_range [of R1 R2] by simp_all
  have "\<bar>1 - e1\<bar> \<le> 2" using e1(2,3) E by linarith
  then have "\<bar>1 - e1\<bar> \<le> 2 ^ 33" by simp
  from binary64_bounded [OF this] obtain e2 where
    e2: "binary64 (1 - e1) = Finite e2" "\<bar>e2 - (1 - e1)\<bar> \<le> \<bar>1 - e1\<bar> / 2 ^ 53 + 1 / 2 ^ 60" by blast
  have "\<bar>1 - e1\<bar> / 2 ^ 53 \<le> 2 / 2 ^ 53" using \<open>\<bar>1 - e1\<bar> \<le> 2\<close> by (intro divide_right_mono) simp_all
  moreover have "(2::real) / 2 ^ 53 + 1 / 2 ^ 60 + 1 / 600 \<le> 1 / 512" by simp
  ultimately have c2: "\<bar>e2 - (1 - ?E)\<bar> \<le> 1 / 512" using e2(2) e1(3) by linarith
  have c1: "\<bar>e1 - ?E\<bar> \<le> 1 / 512" using e1(3) by simp
  have x2: "num_sub (Finite 1) (Finite e1) = Finite e2" using e2(1) by (simp add: num_sub_def)
  from actualScore_close [OF assms(4,5,8,9)] obtain a1 where
    a1: "num_div (Finite s1) (Number (int n)) = Finite a1" "\<bar>a1 - s1 / real n\<bar> \<le> 1 / 2 ^ 50" by blast
  from actualScore_close [OF assms(6,7,8,9)] obtain a2 where
    a2: "num_div (Finite s2) (Number (int n)) = Finite a2" "\<bar>a2 - s2 / real n\<bar> \<le> 1 / 2 ^ 50" by blast
  have q1: "0 \<le> s1 / real n" "s1 / real n \<le> 1" using assms(4,5,8) by simp_all
  have q2: "0 \<le> s2 / real n" "s2 / real n \<le> 1" using assms(6,7,8) by simp_all
  from surplus_close [OF a1(2) c1 q1 E] obtain y1 where
    y1: "num_mul (Finite 32) (num_sub (Finite a1) (Finite e1)) = Finite y1"
        "\<bar>y1 - 32 * (s1 / real n - ?E)\<bar> \<le> 1 / 10" by blast
  have E': "0 \<le> 1 - ?E" "1 - ?E \<le> 1" using E by simp_all
  from surplus_close [OF a2(2) c2 q2 E'] obtain y2 where
    y2: "num_mul (Finite 32) (num_sub (Finite a2) (Finite e2)) = Finite y2"
        "\<bar>y2 - 32 * (s2 / real n - (1 - ?E))\<bar> \<le> 1 / 10" by blast
  have "ratingChanges hp (Number R1) (Number R2)
          (num_div (Finite s1) (Number (int n))) (num_div (Finite s2) (Number (int n)))
        = (Finite (of_int \<lfloor>y1 + 1 / 2\<rfloor>), Finite (of_int \<lfloor>y2 + 1 / 2\<rfloor>))"
    by (simp only: ratingChanges_def Let_def e1(1) x2 a1(1) a2(1) y1(1) y2(1) Math_round.simps)
  moreover have "\<bar>y1 - 32 * (s1 / real n - ?E)\<bar> \<le> 1 / 8" using y1(2) by simp
  moreover have "\<bar>y2 - 32 * (s2 / real n - (1 - ?E))\<bar> \<le> 1 / 8" using y2(2) by simp
  ultimately show ?thesis by blast
qed

section \<open>The rating rule\<close>






lemma int4_numeral [simp]: "int4 (numeral k) \<longleftrightarrow> (numeral k :: int) < 2 ^ 31"
  by (simp add: int4_def)


lemma equal_ratings:
  assumes "int4 R"
  shows "ratingChanges hp (Number R) (Number R) x y
         = (Math_round (num_mul (Finite 32) (num_sub x (Finite (1 / 2)))),
            Math_round (num_mul (Finite 32) (num_sub y (Finite (1 / 2)))))"
  using assms by (simp add: ratingChanges_def Let_def Number_int4 num_sub_def Math_pow_def)









lemma calculateEloChange_equal_players:
  "calculateEloChange hp (Finite 1500) (Finite 1500) (Finite 1) (Finite 32)
     = (Finite 1516, Finite 1484)"
  "calculateEloChange hp (Finite 1500) (Finite 1500) (Finite (1 / 2)) (Finite 32)
     = (Finite 1500, Finite 1500)"
  "calculateEloChange hp (Finite 1500) (Finite 1500) (Finite 0) (Finite 32)
     = (Finite 1484, Finite 1516)"
  by (simp_all add: calculateEloChange_def Let_def num_sub_def Math_pow_def)


section \<open>The formula of the tests\<close>

text \<open>The formula of \<open>tests/elo-rating.test.ts\<close> rounds the new rating, not the change:
  in doubles its two changes are within 1 of those of the specification as well.\<close>

lemma round_add_int: "round (real_of_int n + x) = n + round x"
  by (simp add: round_def add.assoc)

lemma rating_update_close:
  assumes "int4 R" and "\<bar>y\<bar> \<le> 64" and "\<bar>y - Y\<bar> \<le> 1 / 10"
  shows "\<exists>m. Math_round (num_add (Number R) (Finite y)) = Finite (of_int m)
             \<and> \<bar>m - R - round Y\<bar> \<le> 1"
proof -
  have "\<bar>R\<bar> \<le> 2 ^ 31" using assms(1) unfolding int4_def by simp linarith
  then have "real_of_int \<bar>R\<bar> \<le> real_of_int (2 ^ 31)" by (simp only: of_int_le_iff)
  then have R: "\<bar>real_of_int R\<bar> \<le> 2 ^ 31" by simp
  then have "\<bar>real_of_int R + y\<bar> \<le> 2 ^ 33" using assms(2) by simp
  from binary64_bounded [OF this] obtain w where
    w: "binary64 (real_of_int R + y) = Finite w"
       "\<bar>w - (real_of_int R + y)\<bar> \<le> \<bar>real_of_int R + y\<bar> / 2 ^ 53 + 1 / 2 ^ 60" by blast
  have "\<bar>real_of_int R + y\<bar> \<le> 2 ^ 32" using R assms(2) by simp
  then have "\<bar>real_of_int R + y\<bar> / 2 ^ 53 \<le> 2 ^ 32 / 2 ^ 53" by (intro divide_right_mono) simp_all
  moreover have "(2::real) ^ 32 / 2 ^ 53 + 1 / 2 ^ 60 \<le> 1 / 1000000" by simp
  ultimately have "\<bar>w - (real_of_int R + y)\<bar> \<le> 1 / 1000000" using w(2) by linarith
  with assms(3) have "\<bar>w - (real_of_int R + Y)\<bar> \<le> 1 / 8" by argo
  from rounding_close(1) [OF this] have "\<bar>\<lfloor>w + 1 / 2\<rfloor> - (R + round Y)\<bar> \<le> 1"
    by (simp only: round_add_int)
  then have "\<bar>\<lfloor>w + 1 / 2\<rfloor> - R - round Y\<bar> \<le> 1" by simp
  moreover have "Math_round (num_add (Number R) (Finite y)) = Finite (of_int \<lfloor>w + 1 / 2\<rfloor>)"
    using w(1) by (simp add: Number_int4 [OF assms(1)])
  ultimately show ?thesis by blast
qed

lemma calculateEloChange_spec:
  assumes "accurate hp" and "int4 RA" and "int4 RB" and "0 \<le> A" and "A \<le> 1"
  shows "\<exists>nA nB. calculateEloChange hp (Number RA) (Number RB) (Finite A) calculateEloChange_k
                   = (Finite (of_int nA), Finite (of_int nB))
                 \<and> \<bar>nA - RA - spec_delta1 RA RB A\<bar> \<le> 1
                 \<and> \<bar>nB - RB - spec_delta2 RA RB A\<bar> \<le> 1"
proof -
  let ?E = "spec_E1 RA RB"
  have E: "0 \<le> ?E" "?E \<le> 1" using spec_E1_range [of RA RB] by simp_all
  have E': "0 \<le> 1 - ?E" "1 - ?E \<le> 1" using E by simp_all
  have A': "0 \<le> 1 - A" "1 - A \<le> 1" using assms(4,5) by simp_all
  from expectedScore_close [OF assms(1-3)] obtain eA where
    eA: "num_div (Finite 1) (num_add (Finite 1)
           (Math_pow hp 10 (num_div (num_sub (Number RB) (Number RA)) (Finite 400))))
         = Finite eA" "\<bar>eA - ?E\<bar> \<le> 1 / 600" by blast
  from expectedScore_close [OF assms(1,3,2)] obtain eB where
    eB: "num_div (Finite 1) (num_add (Finite 1)
           (Math_pow hp 10 (num_div (num_sub (Number RA) (Number RB)) (Finite 400))))
         = Finite eB" "\<bar>eB - spec_E1 RB RA\<bar> \<le> 1 / 600" by blast
  have cA: "\<bar>eA - ?E\<bar> \<le> 1 / 512" using eA(2) by simp
  have cB: "\<bar>eB - (1 - ?E)\<bar> \<le> 1 / 512" using eB(2) unfolding spec_E1_swap [of RA RB] by simp
  have "\<bar>1 - A\<bar> \<le> 2 ^ 33" using assms(4,5) by simp
  from binary64_bounded [OF this] obtain b where
    b: "binary64 (1 - A) = Finite b" "\<bar>b - (1 - A)\<bar> \<le> \<bar>1 - A\<bar> / 2 ^ 53 + 1 / 2 ^ 60" by blast
  have "\<bar>1 - A\<bar> / 2 ^ 53 \<le> 1 / 2 ^ 53" using assms(4,5) by (intro divide_right_mono) simp_all
  moreover have "(1::real) / 2 ^ 53 + 1 / 2 ^ 60 \<le> 1 / 2 ^ 50" by simp
  ultimately have b': "\<bar>b - (1 - A)\<bar> \<le> 1 / 2 ^ 50" using b(2) by linarith
  have sB: "num_sub (Finite 1) (Finite A) = Finite b" using b(1) by (simp add: num_sub_def)
  have a0: "\<bar>A - A\<bar> \<le> 1 / 2 ^ 50" by simp
  from surplus_close [OF a0 cA assms(4,5) E] obtain yA where
    yA: "num_mul (Finite 32) (num_sub (Finite A) (Finite eA)) = Finite yA" "\<bar>yA\<bar> \<le> 64"
        "\<bar>yA - 32 * (A - ?E)\<bar> \<le> 1 / 10" by blast
  from surplus_close [OF b' cB A' E'] obtain yB where
    yB: "num_mul (Finite 32) (num_sub (Finite b) (Finite eB)) = Finite yB" "\<bar>yB\<bar> \<le> 64"
        "\<bar>yB - 32 * ((1 - A) - (1 - ?E))\<bar> \<le> 1 / 10" by blast
  from rating_update_close [OF assms(2) yA(2,3)] obtain nA where
    nA: "Math_round (num_add (Number RA) (Finite yA)) = Finite (of_int nA)"
        "\<bar>nA - RA - round (32 * (A - ?E))\<bar> \<le> 1" by blast
  from rating_update_close [OF assms(3) yB(2,3)] obtain nB where
    nB: "Math_round (num_add (Number RB) (Finite yB)) = Finite (of_int nB)"
        "\<bar>nB - RB - round (32 * ((1 - A) - (1 - ?E)))\<bar> \<le> 1" by blast
  have "calculateEloChange hp (Number RA) (Number RB) (Finite A) calculateEloChange_k
          = (Finite (of_int nA), Finite (of_int nB))"
    by (simp only: calculateEloChange_def calculateEloChange_k_def Let_def eA(1) eB(1) sB
        yA(1) yB(1) nA(1) nB(1))
  with nA(2) nB(2) show ?thesis unfolding spec_delta1_def spec_delta2_def by blast
qed

section \<open>The keys of the pair counts\<close>

lemma digit_char_inj: "a < 10 \<Longrightarrow> b < 10 \<Longrightarrow> digit_char a = digit_char b \<Longrightarrow> a = b"
proof -
  assume a: "a < 10" and b: "b < 10" and e: "digit_char a = digit_char b"
  from e have "(of_char (digit_char a) :: nat) = of_char (digit_char b)" by simp
  then have "(48 + a) mod 256 = (48 + b) mod 256" by (simp add: digit_char_def)
  with a b show "a = b" by simp
qed

lemma digit_char_not_dash: "d < 10 \<Longrightarrow> digit_char d \<noteq> CHR ''-''"
proof
  assume d: "d < 10" and e: "digit_char d = CHR ''-''"
  from e have "(of_char (digit_char d) :: nat) = of_char (CHR ''-'')" by simp
  then have "(48 + d) mod 256 = 45" by (simp add: digit_char_def)
  with d show False by simp
qed

lemma string_of_nat_not_Nil: "string_of_nat n \<noteq> []"
  by (subst string_of_nat.simps) simp

lemma dash_notin_string_of_nat: "CHR ''-'' \<notin> set (string_of_nat n)"
proof (induction n rule: string_of_nat.induct)
  case (1 n)
  show ?case
  proof (cases "n < 10")
    case True
    then show ?thesis using digit_char_not_dash [of n]
      by (subst string_of_nat.simps) auto
  next
    case False
    have "n mod 10 < 10" by simp
    then have "digit_char (n mod 10) \<noteq> CHR ''-''" by (rule digit_char_not_dash)
    with False 1 show ?thesis
      by (subst string_of_nat.simps) auto
  qed
qed

lemma string_of_nat_inj: "string_of_nat n = string_of_nat m \<Longrightarrow> n = m"
proof (induction n arbitrary: m rule: string_of_nat.induct)
  case (1 n)
  show ?case
  proof (cases "n < 10")
    case True
    note n = this
    show ?thesis
    proof (cases "m < 10")
      case True
      from 1(2) n True have "digit_char n = digit_char m"
        by (simp add: string_of_nat.simps [of n] string_of_nat.simps [of m])
      with n True show ?thesis by (rule digit_char_inj)
    next
      case False
      from 1(2) n False have "[digit_char n] = string_of_nat (m div 10) @ [digit_char (m mod 10)]"
        by (simp add: string_of_nat.simps [of n] string_of_nat.simps [of m])
      then show ?thesis using string_of_nat_not_Nil [of "m div 10"] by simp
    qed
  next
    case False
    note n = this
    show ?thesis
    proof (cases "m < 10")
      case True
      from 1(2) n True have "string_of_nat (n div 10) @ [digit_char (n mod 10)] = [digit_char m]"
        by (simp add: string_of_nat.simps [of n] string_of_nat.simps [of m])
      then show ?thesis using string_of_nat_not_Nil [of "n div 10"] by simp
    next
      case False
      from 1(2) n False
      have "string_of_nat (n div 10) @ [digit_char (n mod 10)]
              = string_of_nat (m div 10) @ [digit_char (m mod 10)]"
        by (simp add: string_of_nat.simps [of n] string_of_nat.simps [of m])
      then have a: "string_of_nat (n div 10) = string_of_nat (m div 10)"
        and b: "digit_char (n mod 10) = digit_char (m mod 10)" by simp_all
      from 1(1) [OF n a] have d: "n div 10 = m div 10" .
      have "n mod 10 = m mod 10" using b by (intro digit_char_inj) simp_all
      with d show ?thesis by (metis div_mult_mod_eq)
    qed
  qed
qed

lemma split_at_dash:
  assumes "xs @ CHR ''-'' # ys = xs' @ CHR ''-'' # ys'"
    and "CHR ''-'' \<notin> set xs" and "CHR ''-'' \<notin> set xs'"
  shows "xs = xs' \<and> ys = ys'"
  using assms
proof (induction xs arbitrary: xs')
  case Nil
  then show ?case by (cases xs') auto
next
  case (Cons x xs)
  then show ?case by (cases xs') auto
qed

lemma pairKey_inj: "pairKey a b = pairKey c d \<longleftrightarrow> a = c \<and> b = d"
proof
  assume "pairKey a b = pairKey c d"
  then have "string_of_nat a @ CHR ''-'' # string_of_nat b = string_of_nat c @ CHR ''-'' # string_of_nat d"
    by (simp add: pairKey_def)
  then have "string_of_nat a = string_of_nat c \<and> string_of_nat b = string_of_nat d"
    by (rule split_at_dash) (rule dash_notin_string_of_nat)+
  then show "a = c \<and> b = d" by (simp add: string_of_nat_inj)
qed simp

section \<open>The pair counts\<close>

lemma setPairCounts_snoc:
  "setPairCounts m (rows @ [(a, b, c)]) = ((setPairCounts m rows)(pairKey a b \<mapsto> c))(pairKey b a \<mapsto> c)"
proof (induction rows arbitrary: m)
  case Nil
  show ?case by (simp only: append_Nil setPairCounts.simps)
next
  case (Cons r rows)
  obtain x y z where r: "r = (x, y, z)" by (cases r)
  show ?case unfolding r by (simp only: append_Cons setPairCounts.simps Cons.IH)
qed

lemma set_both_hit:
  "(a = i \<and> b = j) \<or> (a = j \<and> b = i) \<Longrightarrow>
   ((m(pairKey a b \<mapsto> c))(pairKey b a \<mapsto> c)) (pairKey i j) = Some c"
  apply (erule disjE)
   apply (simp add: pairKey_inj)
  apply (simp add: pairKey_inj)
  done

lemma set_both_miss:
  "\<not> ((a = i \<and> b = j) \<or> (a = j \<and> b = i)) \<Longrightarrow>
   ((m(pairKey a b \<mapsto> c))(pairKey b a \<mapsto> c)) (pairKey i j) = m (pairKey i j)"
proof -
  assume n: "\<not> ((a = i \<and> b = j) \<or> (a = j \<and> b = i))"
  have 1: "pairKey i j \<noteq> pairKey a b" unfolding pairKey_inj using n by blast
  have 2: "pairKey i j \<noteq> pairKey b a" unfolding pairKey_inj using n by blast
  show ?thesis by (simp only: fun_upd_other [OF 1] fun_upd_other [OF 2])
qed

lemma setPairCounts_symmetric:
  "m (pairKey i j) = m (pairKey j i) \<Longrightarrow>
   setPairCounts m rows (pairKey i j) = setPairCounts m rows (pairKey j i)"
proof (induction rows rule: rev_induct)
  case Nil
  then show ?case by simp
next
  case (snoc r rows)
  obtain a b c where r: "r = (a, b, c)" by (cases r)
  have ih: "setPairCounts m rows (pairKey i j) = setPairCounts m rows (pairKey j i)"
    using snoc by simp
  show ?case
  proof (cases "(a = i \<and> b = j) \<or> (a = j \<and> b = i)")
    case True
    then have t: "(a = j \<and> b = i) \<or> (a = i \<and> b = j)" by blast
    show ?thesis unfolding r setPairCounts_snoc
      by (simp only: set_both_hit [OF True] set_both_hit [OF t])
  next
    case False
    then have f: "\<not> ((a = j \<and> b = i) \<or> (a = i \<and> b = j))" by blast
    show ?thesis unfolding r setPairCounts_snoc
      by (simp only: set_both_miss [OF False] set_both_miss [OF f] ih)
  qed
qed

lemma setPairCounts_row:
  assumes "(i, j, c) \<in> set rows"
    and "\<And>c'. (i, j, c') \<in> set rows \<Longrightarrow> c' = c"
    and "\<And>c'. (j, i, c') \<in> set rows \<Longrightarrow> c' = c"
  shows "setPairCounts m rows (pairKey i j) = Some c"
  using assms
proof (induction rows rule: rev_induct)
  case Nil
  then show ?case by simp
next
  case (snoc r rows)
  obtain a b c' where r: "r = (a, b, c')" by (cases r)
  show ?case
  proof (cases "(a = i \<and> b = j) \<or> (a = j \<and> b = i)")
    case True
    have "c' = c"
    proof (rule disjE [OF True])
      assume "a = i \<and> b = j"
      then show ?thesis using snoc.prems(2) [of c'] by (simp add: r)
    next
      assume "a = j \<and> b = i"
      then show ?thesis using snoc.prems(3) [of c'] by (simp add: r)
    qed
    then show ?thesis unfolding r setPairCounts_snoc
      by (simp only: set_both_hit [OF True])
  next
    case False
    with snoc.prems(1) have "(i, j, c) \<in> set rows" by (auto simp: r)
    then have "setPairCounts m rows (pairKey i j) = Some c"
      using snoc.prems(2,3) by (intro snoc.IH) auto
    then show ?thesis unfolding r setPairCounts_snoc
      by (simp only: set_both_miss [OF False])
  qed
qed

lemma pair_game_count_rows_fun:
  "(a, b, c) \<in> set (pair_game_count_rows gs) \<Longrightarrow>
   c = length (filter (\<lambda>g. engine1_id g = a \<and> engine2_id g = b) gs)"
  by (auto simp: pair_game_count_rows_def)

lemma pair_game_count_rows_game:
  "(a, b, c) \<in> set (pair_game_count_rows gs) \<Longrightarrow>
   \<exists>g \<in> set gs. engine1_id g = a \<and> engine2_id g = b"
  by (auto simp: pair_game_count_rows_def)

text \<open>
  Claim C6, as amended. The map that \<open>getPairGameCounts\<close> returns is symmetric: the keys
  \<open>"i-j"\<close> and \<open>"j-i"\<close> always hold the same value. If the store holds the count \<open>c\<close>
  for engine \<open>i\<close> against engine \<open>j\<close> and no game of the two was recorded in the other
  order (or \<open>i = j\<close>), the map yields \<open>c\<close> for both keys.
\<close>

theorem getPairGameCounts_bidirectional:
  "getPairGameCounts db (pairKey i j) = getPairGameCounts db (pairKey j i)
   \<and> ((i, j, c) \<in> set (pair_game_count_rows (games db)) \<and> (i = j \<or> \<not> mirrored db i j)
        \<longrightarrow> getPairGameCounts db (pairKey i j) = Some c \<and> getPairGameCounts db (pairKey j i) = Some c)"
proof (intro conjI impI)
  show s: "getPairGameCounts db (pairKey i j) = getPairGameCounts db (pairKey j i)"
    unfolding getPairGameCounts_def by (rule setPairCounts_symmetric) simp
  assume h: "(i, j, c) \<in> set (pair_game_count_rows (games db)) \<and> (i = j \<or> \<not> mirrored db i j)"
  have 1: "\<And>c'. (i, j, c') \<in> set (pair_game_count_rows (games db)) \<Longrightarrow> c' = c"
    using h by (auto dest!: pair_game_count_rows_fun)
  have 2: "\<And>c'. (j, i, c') \<in> set (pair_game_count_rows (games db)) \<Longrightarrow> c' = c"
  proof -
    fix c' assume m: "(j, i, c') \<in> set (pair_game_count_rows (games db))"
    show "c' = c"
    proof (cases "i = j")
      case True
      with m 1 show ?thesis by simp
    next
      case False
      with h have "\<not> mirrored db i j" by simp
      moreover from m have "mirrored db i j"
        by (auto simp: mirrored_def list_ex_iff dest!: pair_game_count_rows_game)
      ultimately show ?thesis by simp
    qed
  qed
  show k: "getPairGameCounts db (pairKey i j) = Some c"
    unfolding getPairGameCounts_def using h 1 2 by (intro setPairCounts_row) auto
  show "getPairGameCounts db (pairKey j i) = Some c" using s k by simp
qed

section \<open>The pair counts on the example games\<close>

lemma two_engines_eq:
  "two_engines =
     \<lparr>engines = [\<lparr>id_col = 1, name = ''Alpha'', description = None, rating = 1500,
                    games_played = 0, wins = 0, losses = 0, draws = 0\<rparr>,
                  \<lparr>id_col = 2, name = ''Beta'', description = None, rating = 1500,
                    games_played = 0, wins = 0, losses = 0, draws = 0\<rparr>],
      games = [], engines_id_seq = 2, games_id_seq = 0\<rparr>"
  by (simp add: two_engines_def addEngine_def insert_engine_def initializeDatabase_def varchar_def
      counter_DEFAULT_def Let_def)

lemma games_update_engines: "games (update_engines P f db) = games db"
  by (simp add: update_engines_def)

lemma updateRatings_games: "games (snd (updateRatings hp db a b d)) = games db"
  by (simp add: updateRatings_def Let_def games_update_engines split: list.splits sum.splits)

lemma played_twice_eq:
  "played_twice = two_engines\<lparr>games := [plain_row 1 1 2 (Some 1), plain_row 2 1 2 (Some 2)],
                               games_id_seq := 2\<rparr>"
  by (simp add: played_twice_def recordGameResult_def insert_game_def varchar_opt_def Let_def
      plain_game_def plain_row_def select_rating_def two_engines_eq)

lemma played_mirrored_games:
  "games played_mirrored = [plain_row 1 1 2 (Some 1), plain_row 2 1 2 (Some 2), plain_row 3 2 1 (Some 2)]"
proof -
  have "recordGameResult correctly_rounded played_twice (plain_game 2 1 Win) None
          = updateRatings correctly_rounded (played_twice\<lparr>games := games played_twice @ [plain_row 3 2 1 (Some 2)],
                                         games_id_seq := 3\<rparr>) 2 1 (Some False)"
    by (simp add: played_twice_eq recordGameResult_def insert_game_def varchar_opt_def Let_def
      plain_game_def plain_row_def select_rating_def two_engines_eq)
  then show ?thesis
    by (simp add: played_mirrored_def updateRatings_games) (simp add: played_twice_eq)
qed

lemma rows_twice: "pair_game_count_rows (games played_twice) = [(1, 2, 2)]"
  by (simp add: played_twice_eq pair_game_count_rows_def plain_row_def)

lemma rows_mirrored: "pair_game_count_rows (games played_mirrored) = [(1, 2, 2), (2, 1, 1)]"
  by (simp add: played_mirrored_games pair_game_count_rows_def plain_row_def)

text \<open>
  Claim C6, as stated, fails. After two games of engine 1 against engine 2 and one game
  entered as engine 2 against engine 1, the store holds the count 2 for the pair
  \<open>(1, 2)\<close> and the count 1 for \<open>(2, 1)\<close>. The later row overwrites both keys: the map
  yields 1 for \<open>"1-2"\<close>. Had the rows come in the other order, it would yield 2 for
  \<open>"2-1"\<close>, against the count 1 of the row \<open>(2, 1)\<close>.
\<close>

theorem getPairGameCounts_counterexample:
  "(1, 2, 2) \<in> set (pair_game_count_rows (games played_mirrored))
   \<and> getPairGameCounts played_mirrored (pairKey 1 2) = Some 1
   \<and> (2, 1, 1) \<in> set (rev (pair_game_count_rows (games played_mirrored)))
   \<and> setPairCounts Map.empty (rev (pair_game_count_rows (games played_mirrored))) (pairKey 2 1) = Some 2"
  by (simp add: getPairGameCounts_def rows_mirrored pairKey_inj)

text \<open>Witness for C6 as amended: after the two games of engine 1 against engine 2
  alone.\<close>

theorem getPairGameCounts_bidirectional_witness:
  "(1, 2, 2) \<in> set (pair_game_count_rows (games played_twice))
   \<and> \<not> mirrored played_twice 1 2
   \<and> getPairGameCounts played_twice (pairKey 1 2) = Some 2
   \<and> getPairGameCounts played_twice (pairKey 2 1) = Some 2"
proof -
  have a: "(1, 2, 2) \<in> set (pair_game_count_rows (games played_twice))"
    by (simp add: rows_twice)
  have b: "\<not> mirrored played_twice 1 2"
    by (simp add: mirrored_def played_twice_eq plain_row_def)
  from a b getPairGameCounts_bidirectional [of played_twice 1 2 2] show ?thesis by blast
qed

section \<open>Recording a game\<close>

lemma select_rating_Nil: "select_rating db i = [] \<longleftrightarrow> i \<notin> id_col ` set (engines db)"
  by (auto simp: select_rating_def filter_empty_conv)

text \<open>
  Claim C8. For every game whose \<open>engine1Id\<close> or \<open>engine2Id\<close> has no row in \<open>engines\<close>,
  \<open>recordGameResult\<close> fails with the error \<open>One or both engines not found\<close> and leaves
  the database as it was: both ratings are read before the insert, so no game row is
  inserted.
\<close>

theorem recordGameResult_engine_not_found:
  assumes "engine1Id g \<notin> id_col ` set (engines db) \<or> engine2Id g \<notin> id_col ` set (engines db)"
  shows "recordGameResult host_pow db g s = (Inl (Error ''One or both engines not found''), db)"
proof -
  from assms have "select_rating db (engine1Id g) = [] \<or> select_rating db (engine2Id g) = []"
    by (simp only: select_rating_Nil)
  then show ?thesis by (auto simp: recordGameResult_def Let_def)
qed

text \<open>Witness for C8: engine 999 against engine 1 on the table of two engines.\<close>

theorem recordGameResult_engine_not_found_witness:
  "999 \<notin> id_col ` set (engines two_engines)
   \<and> recordGameResult correctly_rounded two_engines (plain_game 999 1 Win) None
       = (Inl (Error ''One or both engines not found''), two_engines)"
proof -
  have a: "999 \<notin> id_col ` set (engines two_engines)" by (simp add: two_engines_eq)
  then have "engine1Id (plain_game 999 1 Win) \<notin> id_col ` set (engines two_engines)
     \<or> engine2Id (plain_game 999 1 Win) \<notin> id_col ` set (engines two_engines)"
    by (simp add: plain_game_def)
  from recordGameResult_engine_not_found [OF this, of correctly_rounded None] a
  show ?thesis by simp
qed

section \<open>Adding an engine\<close>

lemma insert_engine_Inr:
  assumes "insert_engine db n r d = (Inr i, db')"
  shows "\<exists>n'. varchar 255 n = Inr n' \<and> n' \<notin> set (map name (engines db))
     \<and> i = Suc (engines_id_seq db)
     \<and> db' = db\<lparr>engines_id_seq := i,
                 engines := engines db @ [\<lparr>id_col = i, name = n', description = d, rating = r,
                       games_played = 0, wins = 0, losses = 0, draws = 0\<rparr>]\<rparr>"
  using assms
  by (auto simp: insert_engine_def Let_def counter_DEFAULT_def split: sum.splits if_splits)

text \<open>An engine whose name fits the column and is not in the table yet is added.\<close>

lemma addEngine_succeeds:
  assumes "length n \<le> 255" and "n \<notin> set (map name (engines db))"
  shows "\<exists>db'. addEngine db n r d = (Inr (Suc (engines_id_seq db)), db')"
  using assms by (simp add: addEngine_def insert_engine_def varchar_def Let_def)

text \<open>
  Claim C9. Every successful \<open>addEngine\<close> appends one row and returns the id of that row.
  The row has the description that was given (\<open>NULL\<close> when none was) and the rating that
  was given; without a rating it has the rating 1500, which is the default of the column
  in the schema. Its counters are 0.
\<close>

theorem addEngine_defaults:
  assumes "addEngine db n r d = (Inr i, db')"
  shows "\<exists>row. engines db' = engines db @ [row] \<and> id_col row = i
           \<and> varchar 255 n = Inr (name row)
           \<and> description row = d
           \<and> rating row = (case r of None \<Rightarrow> rating_DEFAULT | Some x \<Rightarrow> x)
           \<and> (r = None \<longrightarrow> rating row = 1500)
           \<and> games_played row = 0 \<and> wins row = 0 \<and> losses row = 0 \<and> draws row = 0"
proof -
  let ?r = "case r of None \<Rightarrow> 1500 | Some x \<Rightarrow> x"
  from assms have "insert_engine db n ?r d = (Inr i, db')"
    by (simp add: addEngine_def)
  from insert_engine_Inr [OF this] obtain n' where
    n': "varchar 255 n = Inr n'" and
    db': "db' = db\<lparr>engines_id_seq := i,
                 engines := engines db @ [\<lparr>id_col = i, name = n', description = d, rating = ?r,
                       games_played = 0, wins = 0, losses = 0, draws = 0\<rparr>]\<rparr>"
    by blast
  show ?thesis
    by (rule exI [of _ "\<lparr>id_col = i, name = n', description = d, rating = ?r,
                       games_played = 0, wins = 0, losses = 0, draws = 0\<rparr>"])
       (simp add: db' n' rating_DEFAULT_def split: option.splits)
qed

text \<open>Witness for C9: the first engine added to the empty table, with its name only.\<close>

theorem addEngine_defaults_witness:
  "addEngine (initializeDatabase None) ''TestEngine'' None None
     = (Inr 1, \<lparr>engines = [\<lparr>id_col = 1, name = ''TestEngine'', description = None, rating = 1500,
                    games_played = 0, wins = 0, losses = 0, draws = 0\<rparr>],
                games = [], engines_id_seq = 1, games_id_seq = 0\<rparr>)
   \<and> (\<exists>row. [\<lparr>id_col = 1, name = ''TestEngine'', description = None, rating = 1500,
                    games_played = 0, wins = 0, losses = 0, draws = 0\<rparr>] = [] @ [row]
          \<and> id_col row = 1 \<and> rating row = 1500 \<and> description row = None)"
proof -
  have a: "addEngine (initializeDatabase None) ''TestEngine'' None None
     = (Inr 1, \<lparr>engines = [\<lparr>id_col = 1, name = ''TestEngine'', description = None, rating = 1500,
                    games_played = 0, wins = 0, losses = 0, draws = 0\<rparr>],
                games = [], engines_id_seq = 1, games_id_seq = 0\<rparr>)"
    by (simp add: addEngine_def insert_engine_def initializeDatabase_def varchar_def
      counter_DEFAULT_def Let_def)
  from addEngine_defaults [OF a] a show ?thesis
    by (simp add: initializeDatabase_def rating_DEFAULT_def)
qed

section \<open>Engine names\<close>

lemma varchar_length: "varchar k s = Inr s' \<Longrightarrow> length s' \<le> k"
  by (auto simp: varchar_def split: if_splits)

lemma varchar_short: "length s \<le> k \<Longrightarrow> varchar k s = Inr s"
  by (simp add: varchar_def)

lemma update_engines_names:
  "(\<And>e. name (f e) = name e) \<Longrightarrow> map name (engines (update_engines P f db)) = map name (engines db)"
  by (simp add: update_engines_def)

lemma names_ok_cong: "map name (engines db') = map name (engines db) \<Longrightarrow> names_ok db \<Longrightarrow> names_ok db'"
proof -
  assume e: "map name (engines db') = map name (engines db)" and ok: "names_ok db"
  have "list_all (\<lambda>n. length n \<le> 255) (map name (engines db))"
    using ok by (simp add: names_ok_def list_all_iff)
  then have "list_all (\<lambda>n. length n \<le> 255) (map name (engines db'))" by (simp only: e)
  then have "list_all (\<lambda>e. length (name e) \<le> 255) (engines db')" by (simp add: list_all_iff)
  moreover have "distinct (map name (engines db'))" using ok by (simp only: e names_ok_def)
  ultimately show ?thesis by (simp add: names_ok_def)
qed

lemma insert_engine_names_ok: "names_ok db \<Longrightarrow> names_ok (snd (insert_engine db n r d))"
  by (auto simp: insert_engine_def Let_def names_ok_def split: sum.splits dest: varchar_length)

lemma addEngine_names_ok: "names_ok db \<Longrightarrow> names_ok (snd (addEngine db n r d))"
  by (simp add: addEngine_def insert_engine_names_ok)

lemma updateRatings_names:
  "map name (engines (snd (updateRatings hp db e1 e2 isDraw))) = map name (engines db)"
  by (simp add: updateRatings_def Let_def update_engines_names split: list.splits sum.splits)

lemma insert_game_engines: "engines (snd (insert_game db e1 e2 w dr r1 r2 g)) = engines db"
  by (simp add: insert_game_def Let_def split: sum.splits)

lemma recordGameResult_names:
  "map name (engines (snd (recordGameResult hp db g s))) = map name (engines db)"
proof -
  obtain x db1 where i: "insert_game db (engine1Id g) (engine2Id g)
      (if result g = Draw then None else if result g = Win then Some (engine1Id g) else Some (engine2Id g))
      (result g = Draw) (hd (select_rating db (engine1Id g))) (hd (select_rating db (engine2Id g))) g = (x, db1)"
    by (cases "insert_game db (engine1Id g) (engine2Id g)
      (if result g = Draw then None else if result g = Win then Some (engine1Id g) else Some (engine2Id g))
      (result g = Draw) (hd (select_rating db (engine1Id g))) (hd (select_rating db (engine2Id g))) g")
  have e: "engines db1 = engines db" using insert_game_engines [of db] i by (metis snd_conv)
  show ?thesis
    by (cases x) (simp_all add: recordGameResult_def Let_def i e updateRatings_names)
qed

lemma recordGames_names:
  "map name (engines (snd (recordGames hp db gs))) = map name (engines db)"
proof (induction gs arbitrary: db)
  case Nil
  show ?case by simp
next
  case (Cons g gs)
  obtain x db1 where r: "recordGameResult hp db g (Some False) = (x, db1)"
    by (cases "recordGameResult hp db g (Some False)")
  have e: "map name (engines db1) = map name (engines db)"
    using recordGameResult_names [of hp db g "Some False"] by (simp add: r)
  show ?case
    by (cases x) (simp_all add: r e Cons.IH)
qed

lemma recordMatchSetResult_names:
  "map name (engines (snd (recordMatchSetResult hp db m))) = map name (engines db)"
proof -
  obtain x db1 where r: "recordGames hp db (result_games m) = (x, db1)"
    by (cases "recordGames hp db (result_games m)")
  have e: "map name (engines db1) = map name (engines db)"
    using recordGames_names [of hp db "result_games m"] by (simp add: r)
  show ?thesis
    by (cases x)
      (simp_all add: recordMatchSetResult_def Let_def r e update_engines_names
         split: prod.splits sum.splits)
qed

lemma processEngines_names_ok:
  "names_ok (pool w) \<Longrightarrow> names_ok (pool (snd (processEngines replace cs loaded skipped w)))"
proof (induction cs arbitrary: loaded skipped w)
  case Nil
  then show ?case by simp
next
  case (Cons c cs)
  show ?case
  proof (cases "length (filter (\<lambda>e. name e = cfg_name c) (engines (pool w))) > 0")
    case True
    show ?thesis
    proof (cases replace)
      case True
      let ?db = "update_engines (\<lambda>e. name e = cfg_name c)
                   (\<lambda>e. e\<lparr>description := cfg_description c, rating := initialRating c\<rparr>) (pool w)"
      have "names_ok ?db"
        using Cons.prems by (intro names_ok_cong [of ?db "pool w"] update_engines_names) simp_all
      then have "names_ok (pool (console_log (UpdatedEngine (cfg_name c)) (w\<lparr>pool := ?db\<rparr>)))"
        by (simp add: console_log_def)
      from Cons.IH [OF this] show ?thesis
        using True \<open>length (filter (\<lambda>e. name e = cfg_name c) (engines (pool w))) > 0\<close>
        by (simp add: Let_def)
    next
      case False
      have "names_ok (pool (console_log (EngineAlreadyExists (cfg_name c)) w))"
        using Cons.prems by (simp add: console_log_def)
      from Cons.IH [OF this] show ?thesis
        using False \<open>length (filter (\<lambda>e. name e = cfg_name c) (engines (pool w))) > 0\<close>
        by (simp add: Let_def)
    qed
  next
    case False
    obtain x db where a: "addEngine (pool w) (cfg_name c) (Some (initialRating c)) (cfg_description c) = (x, db)"
      by (cases "addEngine (pool w) (cfg_name c) (Some (initialRating c)) (cfg_description c)")
    have ok: "names_ok db"
      using addEngine_names_ok [OF Cons.prems, of "cfg_name c" "Some (initialRating c)" "cfg_description c"]
      by (simp add: a)
    show ?thesis
    proof (cases x)
      case (Inl e)
      then show ?thesis using False ok by (simp add: Let_def a console_log_def)
    next
      case (Inr i)
      have "names_ok (pool (console_log (AddedEngine (cfg_name c) (initialRating c)) (w\<lparr>pool := db\<rparr>)))"
        using ok by (simp add: console_log_def)
      from Cons.IH [OF this] show ?thesis using False Inr by (simp add: Let_def a)
    qed
  qed
qed

lemma loadEnginesFromConfig_names_ok:
  "names_ok (pool w) \<Longrightarrow> names_ok (pool (snd (loadEnginesFromConfig JSON_parse fs w path replace)))"
  by (auto simp: loadEnginesFromConfig_def Let_def console_log_def
      split: option.splits sum.splits intro!: processEngines_names_ok)

lemma reachable_names_ok: "reachable db \<Longrightarrow> names_ok db"
proof (induction rule: reachable.induct)
  case reachable_init
  show ?case by (simp add: names_ok_def initializeDatabase_def)
next
  case (reachable_addEngine db n r d)
  then show ?case by (simp add: addEngine_names_ok)
next
  case reachable_updateRatings
  then show ?case using names_ok_cong [OF updateRatings_names] by blast
next
  case reachable_recordGameResult
  then show ?case using names_ok_cong [OF recordGameResult_names] by blast
next
  case reachable_recordMatchSetResult
  then show ?case using names_ok_cong [OF recordMatchSetResult_names] by blast
next
  case (reachable_loadEnginesFromConfig w JSON_parse fs path replace)
  then show ?case by (simp add: loadEnginesFromConfig_names_ok)
qed

lemma addEngine_duplicate:
  assumes "names_ok db" and "n \<in> set (map name (engines db))"
  shows "addEngine db n r d = (Inl (DatabaseError ''duplicate key value violates unique constraint''),
                               db\<lparr>engines_id_seq := Suc (engines_id_seq db)\<rparr>)"
proof -
  from assms have "length n \<le> 255" by (auto simp: names_ok_def list_all_iff)
  then have "varchar 255 n = Inr n" by (rule varchar_short)
  with assms(2) show ?thesis by (simp add: addEngine_def insert_engine_def Let_def)
qed

text \<open>
  Claim C7. In every state the program can bring the database to, no two rows of
  \<open>engines\<close> share a name; and \<open>addEngine\<close> with a name that is already in the table fails
  (the insert is rejected for the unique constraint) and leaves the table as it was.
\<close>

theorem engine_names_unique:
  assumes "reachable db"
  shows "distinct (map name (engines db))
     \<and> (n \<in> set (map name (engines db)) \<longrightarrow>
          fst (addEngine db n r d) = Inl (DatabaseError ''duplicate key value violates unique constraint'')
          \<and> engines (snd (addEngine db n r d)) = engines db)"
proof -
  have ok: "names_ok db" using assms by (rule reachable_names_ok)
  then have "distinct (map name (engines db))" by (simp add: names_ok_def)
  moreover have "n \<in> set (map name (engines db)) \<longrightarrow>
          fst (addEngine db n r d) = Inl (DatabaseError ''duplicate key value violates unique constraint'')
          \<and> engines (snd (addEngine db n r d)) = engines db"
    using addEngine_duplicate [OF ok] by simp
  ultimately show ?thesis by blast
qed

text \<open>Witness for C7: a second engine named \<open>Alpha\<close> on the table of two engines.\<close>

theorem engine_names_unique_witness:
  "reachable two_engines
   \<and> ''Alpha'' \<in> set (map name (engines two_engines))
   \<and> distinct (map name (engines two_engines))
   \<and> fst (addEngine two_engines ''Alpha'' None None)
       = Inl (DatabaseError ''duplicate key value violates unique constraint'')
   \<and> engines (snd (addEngine two_engines ''Alpha'' None None)) = engines two_engines"
proof -
  have r: "reachable two_engines"
    unfolding two_engines_def by (intro reachable_addEngine reachable_init)
  have n: "''Alpha'' \<in> set (map name (engines two_engines))" by (simp add: two_engines_eq)
  from engine_names_unique [OF r, of "''Alpha''" None None] r n show ?thesis by blast
qed
section \<open>Startup without a configuration file\<close>

text \<open>
  Claim C5. If there is no file at the configuration path, \<open>autoLoadEngines\<close> raises no
  error, loads no engine (the database is as it was) and writes its notice once: the
  line that names the missing file and the line of advice after it.
\<close>

theorem autoLoadEngines_missing_file:
  assumes "fs (DEFAULT_CONFIG_FILE env) = None"
  shows "autoLoadEngines JSON_parse fs env w
           = (Inr (), w\<lparr>console := console w @ [NoConfigFileFound (DEFAULT_CONFIG_FILE env), CreateEnginesJsonHint]\<rparr>)"
  using assms by (simp add: autoLoadEngines_def Let_def console_log_def)

text \<open>Witness for C5: a start on the tables just created, with no file anywhere.\<close>

theorem autoLoadEngines_missing_file_witness:
  "Map.empty (DEFAULT_CONFIG_FILE None) = None
   \<and> autoLoadEngines (\<lambda>t. Inl (SyntaxError [])) Map.empty None fresh_world
       = (Inr (), \<lparr>pool = \<lparr>engines = [], games = [], engines_id_seq = 0, games_id_seq = 0\<rparr>,
                   console = [NoConfigFileFound ''./engines.json'', CreateEnginesJsonHint]\<rparr>)"
  using autoLoadEngines_missing_file [of Map.empty None "\<lambda>t. Inl (SyntaxError [])" fresh_world]
  by (simp add: DEFAULT_CONFIG_FILE_def fresh_world_def initializeDatabase_def)

section \<open>Rankings\<close>

lemma limit_param_nat:
  assumes "N < 2 ^ 63"
  shows "limit_param (Finite (real N)) = Inr N"
proof -
  have "real N < real (2 ^ 63)" using assms by (simp only: of_nat_less_iff)
  then have "real N < 2 ^ 63" by simp
  then show ?thesis by (simp add: limit_param_def)
qed

lemma limit_param_negative:
  assumes "N < 2 ^ 63"
  shows "limit_param (Finite (- 1 - real N)) = Inl (DatabaseError ''LIMIT must not be negative'')"
proof -
  have "real N < real (2 ^ 63)" using assms by (simp only: of_nat_less_iff)
  then have b: "real N < 2 ^ 63" by simp
  have "- 1 - real N = real_of_int (- 1 - int N)" by simp
  then have f: "real_of_int \<lfloor>- 1 - real N\<rfloor> = - 1 - real N" by (simp only: floor_of_int)
  show ?thesis using b by (simp add: limit_param_def f)
qed

lemma getRankings_rows:
  assumes "N < 2 ^ 63"
  shows "getRankings ob db (Some (Finite (real N))) d
         = Inr (map (select_fields (case d of None \<Rightarrow> False | Some b \<Rightarrow> b)) (take N (ob (engines db))))"
  by (simp add: getRankings_def Let_def limit_param_nat [OF assms])

lemma select_fields_shows: "list_all2 (shows_engine d) (map (select_fields d) es) es"
  by (simp add: list_all2_map1 list_all2_same shows_engine_def select_fields_def)

lemma row_rating_select: "map row_rating (map (select_fields d) es) = map rating es"
  by (simp add: select_fields_def)

lemma mset_take_subset: "mset (take n xs) \<subseteq># mset xs"
proof -
  have "mset (take n xs) + mset (drop n xs) = mset xs"
    by (simp only: mset_append [symmetric] append_take_drop_id)
  then show ?thesis by (metis mset_subset_eq_add_left)
qed

lemma ordered_rows:
  assumes "ORDER_BY_rating_DESC ob"
  shows "mset (ob es) = mset es" and "sorted_wrt (\<lambda>a b. rating b \<le> rating a) (ob es)"
  using assms by (simp_all add: ORDER_BY_rating_DESC_def)

lemma ratings_desc:
  assumes "ORDER_BY_rating_DESC ob"
  shows "map rating (ob es) = rev (sort (map rating es))"
proof -
  have "mset (rev (map rating (ob es))) = mset (map rating es)"
    using ordered_rows(1) [OF assms, of es] by simp
  moreover have "sorted (rev (map rating (ob es)))"
    using ordered_rows(2) [OF assms, of es] by (simp add: sorted_wrt_rev sorted_wrt_map)
  ultimately have "sort (map rating es) = rev (map rating (ob es))" by (rule properties_for_sort)
  then show ?thesis by simp
qed

text \<open>Where no two engines share a rating, the order of the rows is fixed.\<close>

lemma order_unique:
  assumes "ORDER_BY_rating_DESC ob" and "ORDER_BY_rating_DESC ob'" and "distinct (map rating es)"
  shows "ob' es = ob es"
proof -
  have m: "map rating (ob' es) = map rating (ob es)"
    by (simp only: ratings_desc [OF assms(1)] ratings_desc [OF assms(2)])
  have "set (ob es) = set es" "set (ob' es) = set es"
    using ordered_rows(1) [OF assms(1), of es] ordered_rows(1) [OF assms(2), of es]
    by (auto dest: mset_eq_setD)
  moreover have "inj_on rating (set es)" using assms(3) by (simp add: distinct_map)
  ultimately have "inj_on rating (set (ob' es) \<union> set (ob es))" by simp
  with m show ?thesis by (rule map_inj_on)
qed

lemma table_order_valid: "ORDER_BY_rating_DESC table_order"
proof -
  have "sorted_wrt (\<lambda>a b. rating b \<le> rating a) (table_order es)" for es
  proof -
    have "sorted (map (\<lambda>e. - rating e) (table_order es))"
      unfolding table_order_def by (rule sorted_sort_key)
    then show ?thesis by (simp add: sorted_wrt_map)
  qed
  then show ?thesis by (simp add: ORDER_BY_rating_DESC_def) (simp add: table_order_def)
qed

lemma reverse_order_valid: "ORDER_BY_rating_DESC reverse_order"
proof -
  have "sorted_wrt (\<lambda>a b. rating b \<le> rating a) (reverse_order es)" for es
  proof -
    have "sorted (map rating (sort_key rating es))" by (rule sorted_sort_key)
    then show ?thesis by (simp add: reverse_order_def sorted_wrt_rev sorted_wrt_map)
  qed
  then show ?thesis by (simp add: ORDER_BY_rating_DESC_def) (simp add: reverse_order_def)
qed

lemma getRankings_two_engines:
  "getRankings table_order two_engines (Some (Finite 1)) None = Inr [ranking_row ''Alpha'' None]"
  "getRankings table_order two_engines (Some (Finite 1)) (Some True)
     = Inr [ranking_row ''Alpha'' (Some None)]"
  "getRankings reverse_order two_engines (Some (Finite 1)) (Some True)
     = Inr [ranking_row ''Beta'' (Some None)]"
  "getRankings table_order two_engines (Some (Finite (- 1))) None
     = Inl (DatabaseError ''LIMIT must not be negative'')"
  by (simp_all add: getRankings_def limit_param_def Let_def table_order_def reverse_order_def
      two_engines_eq select_fields_def ranking_row_def)

text \<open>
  Claim C10, as stated, fails twice. A negative limit is rejected by the server, so
  \<open>getRankings\<close> throws where the claim has it return. And where two engines share a
  rating, the server is free to order them differently in the two queries: on the
  table of two engines of rating 1500 with the limit 1, one server order makes the
  plain variant show Alpha and another makes the detailed variant show Beta.
\<close>

theorem getRankings_counterexample:
  "getRankings table_order two_engines (Some (Finite (- 1))) None
     = Inl (DatabaseError ''LIMIT must not be negative'')
   \<and> getRankings table_order two_engines (Some (Finite 1)) None
       = Inr [ranking_row ''Alpha'' None]
   \<and> getRankings reverse_order two_engines (Some (Finite 1)) (Some True)
       = Inr [ranking_row ''Beta'' (Some None)]"
  by (simp only: getRankings_two_engines simp_thms)

text \<open>
  Claim C10 as amended. For every limit \<open>N\<close> that is a natural number below \<open>2^63\<close>, on
  every server (every order of the rows in descending rating): \<open>getRankings\<close> returns
  at most \<open>N\<close> rows, as many as the table has up to \<open>N\<close>, in the order of non-increasing
  rating; the rows show engines of the table, none of them twice, each with the name,
  the rating and the counters of its engine, and their ratings are the \<open>N\<close> highest of
  the table. The detailed variant returns as many rows, with the same ratings in the
  same order, each with the description of its engine added; without the description
  they are the rows of the plain variant if the server orders both queries alike, as
  it must when no two engines share a rating. No limit is the limit 10, and a negative
  limit is rejected by the server.
\<close>

theorem getRankings_top_rows:
  assumes "ORDER_BY_rating_DESC order_by" and "ORDER_BY_rating_DESC order_by'" and "N < 2 ^ 63"
  shows "\<exists>rows rows'.
      getRankings order_by db (Some (Finite (real N))) None = Inr rows
    \<and> getRankings order_by' db (Some (Finite (real N))) (Some True) = Inr rows'
    \<and> length rows \<le> N \<and> length rows = min N (length (engines db))
    \<and> sorted_wrt (\<lambda>a b. row_rating b \<le> row_rating a) rows
    \<and> map row_rating rows = take N (rev (sort (map rating (engines db))))
    \<and> mset (take N (order_by (engines db))) \<subseteq># mset (engines db)
    \<and> list_all2 (shows_engine False) rows (take N (order_by (engines db)))
    \<and> mset (take N (order_by' (engines db))) \<subseteq># mset (engines db)
    \<and> list_all2 (shows_engine True) rows' (take N (order_by' (engines db)))
    \<and> length rows' = length rows
    \<and> map row_rating rows' = map row_rating rows
    \<and> (order_by' = order_by \<or> distinct (map rating (engines db))
         \<longrightarrow> map (\<lambda>r. r\<lparr>row_description := None\<rparr>) rows' = rows)
    \<and> getRankings order_by db None None = getRankings order_by db (Some (Finite 10)) None
    \<and> getRankings order_by db (Some (Finite (- 1 - real N))) None
        = Inl (DatabaseError ''LIMIT must not be negative'')"
proof -
  let ?es = "take N (order_by (engines db))" and ?es' = "take N (order_by' (engines db))"
  let ?rows = "map (select_fields False) ?es" and ?rows' = "map (select_fields True) ?es'"
  have 1: "getRankings order_by db (Some (Finite (real N))) None = Inr ?rows"
    by (simp add: getRankings_rows [OF assms(3)])
  have 2: "getRankings order_by' db (Some (Finite (real N))) (Some True) = Inr ?rows'"
    by (simp add: getRankings_rows [OF assms(3)])
  have l: "length (order_by (engines db)) = length (engines db)"
      "length (order_by' (engines db)) = length (engines db)"
    using ordered_rows(1) [OF assms(1), of "engines db"] ordered_rows(1) [OF assms(2), of "engines db"]
    by (auto dest: mset_eq_length)
  have 3: "length ?rows = min N (length (engines db))" by (simp add: l min.commute)
  then have 4: "length ?rows \<le> N" by simp
  have r: "map row_rating ?rows = take N (rev (sort (map rating (engines db))))"
    by (simp only: row_rating_select take_map [symmetric] ratings_desc [OF assms(1)])
  have r': "map row_rating ?rows' = take N (rev (sort (map rating (engines db))))"
    by (simp only: row_rating_select take_map [symmetric] ratings_desc [OF assms(2)])
  have "sorted_wrt (\<lambda>a b. rating b \<le> rating a) ?es"
    using ordered_rows(2) [OF assms(1), of "engines db"] by (rule sorted_wrt_take)
  then have 5: "sorted_wrt (\<lambda>a b. row_rating b \<le> row_rating a) ?rows"
    by (simp add: sorted_wrt_map select_fields_def)
  have 6: "mset ?es \<subseteq># mset (engines db)"
    using mset_take_subset [of N "order_by (engines db)"]
    by (simp only: ordered_rows(1) [OF assms(1)])
  have 7: "mset ?es' \<subseteq># mset (engines db)"
    using mset_take_subset [of N "order_by' (engines db)"]
    by (simp only: ordered_rows(1) [OF assms(2)])
  have 8: "list_all2 (shows_engine False) ?rows ?es" by (rule select_fields_shows)
  have 9: "list_all2 (shows_engine True) ?rows' ?es'" by (rule select_fields_shows)
  have 10: "length ?rows' = length ?rows" by (simp add: l)
  have 11: "map row_rating ?rows' = map row_rating ?rows" by (simp only: r r')
  have 12: "order_by' = order_by \<or> distinct (map rating (engines db))
         \<longrightarrow> map (\<lambda>r. r\<lparr>row_description := None\<rparr>) ?rows' = ?rows"
  proof
    assume "order_by' = order_by \<or> distinct (map rating (engines db))"
    then have "order_by' (engines db) = order_by (engines db)"
      using order_unique [OF assms(1,2)] by auto
    then show "map (\<lambda>r. r\<lparr>row_description := None\<rparr>) ?rows' = ?rows"
      by (simp add: select_fields_def)
  qed
  have 13: "getRankings order_by db None None = getRankings order_by db (Some (Finite 10)) None"
    by (simp add: getRankings_def)
  have 14: "getRankings order_by db (Some (Finite (- 1 - real N))) None
        = Inl (DatabaseError ''LIMIT must not be negative'')"
    by (simp add: getRankings_def Let_def limit_param_negative [OF assms(3)])
  from 1 2 3 4 5 r 6 7 8 9 10 11 12 13 14 show ?thesis by blast
qed

text \<open>Witness for C10 as amended: the table of two engines, the limit 1, the server that
  keeps the order of the table in both queries.\<close>

theorem getRankings_top_rows_witness:
  "ORDER_BY_rating_DESC table_order \<and> (1::nat) < 2 ^ 63
   \<and> getRankings table_order two_engines (Some (Finite (real 1))) None
       = Inr [ranking_row ''Alpha'' None]
   \<and> getRankings table_order two_engines (Some (Finite (real 1))) (Some True)
       = Inr [ranking_row ''Alpha'' (Some None)]
   \<and> map (\<lambda>r. r\<lparr>row_description := None\<rparr>) [ranking_row ''Alpha'' (Some None)]
       = [ranking_row ''Alpha'' None]
   \<and> getRankings table_order two_engines (Some (Finite (- 1 - real 1))) None
       = Inl (DatabaseError ''LIMIT must not be negative'')"
proof -
  have n: "(1::nat) < 2 ^ 63" by simp
  from getRankings_top_rows [OF table_order_valid table_order_valid n, of two_engines]
    table_order_valid getRankings_two_engines(1,2)
  show ?thesis by auto
qed

section \<open>The scores of a match set\<close>

text \<open>A game with the result \<open>'error'\<close> adds nothing to either score, any other game adds
  1 to the two scores together. The scores are multiples of one half, which doubles add
  without a rounding error: the two scores of a match set add up to the number of its
  games that are not errors.\<close>

lemma addScore_Errored: "addScore Errored s = s"
  by (simp add: addScore_def)

lemma half_add:
  assumes "0 \<le> a" and "a < 2 ^ 52"
  shows "num_add (Finite (of_int a / 2)) (Finite 1) = Finite (of_int (a + 2) / 2)"
    and "num_add (Finite (of_int a / 2)) (Finite (1 / 2)) = Finite (of_int (a + 1) / 2)"
proof -
  have "\<bar>a + 2\<bar> < 2 ^ 53" "\<bar>a + 1\<bar> < 2 ^ 53" using assms by simp_all
  then have "binary64 (of_int (a + 2) / 2 ^ 1) = Finite (of_int (a + 2) / 2 ^ 1)"
    "binary64 (of_int (a + 1) / 2 ^ 1) = Finite (of_int (a + 1) / 2 ^ 1)"
    by (simp_all only: binary64_dyadic)
  moreover have "real_of_int a / 2 + 1 = real_of_int (a + 2) / 2 ^ 1"
    "real_of_int a / 2 + 1 / 2 = real_of_int (a + 1) / 2 ^ 1" by simp_all
  ultimately show "num_add (Finite (of_int a / 2)) (Finite 1) = Finite (of_int (a + 2) / 2)"
    and "num_add (Finite (of_int a / 2)) (Finite (1 / 2)) = Finite (of_int (a + 1) / 2)"
    by (simp_all only: num_add.simps power_one_right)
qed

lemma addScore_halves:
  assumes "0 \<le> a" and "0 \<le> b" and "a < 2 ^ 52" and "b < 2 ^ 52"
  shows "\<exists>a' b'. addScore r (Finite (of_int a / 2), Finite (of_int b / 2))
                    = (Finite (of_int a' / 2), Finite (of_int b' / 2))
                 \<and> 0 \<le> a' \<and> 0 \<le> b' \<and> a' + b' = a + b + (if r = Errored then 0 else 2)"
proof (cases r)
  case Win
  have "addScore r (Finite (of_int a / 2), Finite (of_int b / 2))
          = (Finite (of_int (a + 2) / 2), Finite (of_int b / 2))"
    using Win half_add(1) [OF assms(1,3)] by (simp add: addScore_def)
  moreover have "0 \<le> a + 2 \<and> 0 \<le> b \<and> (a + 2) + b = a + b + (if r = Errored then 0 else 2)"
    using Win assms by simp
  ultimately show ?thesis by blast
next
  case Loss
  have "addScore r (Finite (of_int a / 2), Finite (of_int b / 2))
          = (Finite (of_int a / 2), Finite (of_int (b + 2) / 2))"
    using Loss half_add(1) [OF assms(2,4)] by (simp add: addScore_def)
  moreover have "0 \<le> a \<and> 0 \<le> b + 2 \<and> a + (b + 2) = a + b + (if r = Errored then 0 else 2)"
    using Loss assms by simp
  ultimately show ?thesis by blast
next
  case Draw
  have "addScore r (Finite (of_int a / 2), Finite (of_int b / 2))
          = (Finite (of_int (a + 1) / 2), Finite (of_int (b + 1) / 2))"
    using Draw half_add(2) [OF assms(1,3)] half_add(2) [OF assms(2,4)] by (simp add: addScore_def)
  moreover have "0 \<le> a + 1 \<and> 0 \<le> b + 1 \<and> (a + 1) + (b + 1) = a + b + (if r = Errored then 0 else 2)"
    using Draw assms by simp
  ultimately show ?thesis by blast
next
  case Errored
  have "addScore r (Finite (of_int a / 2), Finite (of_int b / 2))
          = (Finite (of_int a / 2), Finite (of_int b / 2))"
    using Errored by (simp add: addScore_def)
  moreover have "0 \<le> a \<and> 0 \<le> b \<and> a + b = a + b + (if r = Errored then 0 else 2)"
    using Errored assms by simp
  ultimately show ?thesis by blast
qed

lemma nonErrorGames_snoc:
  "int (nonErrorGames (gs @ [g])) = int (nonErrorGames gs) + (if result g = Errored then 0 else 1)"
  by (simp add: nonErrorGames_def)

lemma nonErrorGames_le: "nonErrorGames gs \<le> length gs"
  by (simp add: nonErrorGames_def)

lemma playPositions_length:
  "playPositions db run e1 e2 n sps gs s = (ok, gs', s') \<Longrightarrow> length gs \<le> length gs'"
proof (induction sps arbitrary: gs s)
  case Nil
  then show ?case by simp
next
  case (Cons sp sps)
  show ?case
  proof (cases "playGame db run (length gs) e1 e2 sp n White")
    case (Inl e)
    with Cons.prems show ?thesis by simp
  next
    case g1: (Inr game1)
    show ?thesis
    proof (cases "playGame db run (length (gs @ [game1])) e1 e2 sp n Black")
      case (Inl e)
      with Cons.prems g1 show ?thesis by (auto simp: Let_def)
    next
      case g2: (Inr game2)
      from Cons.prems g1 g2
      have "playPositions db run e1 e2 n sps ((gs @ [game1]) @ [game2])
              (addScore (result game2) (addScore (result game1) s)) = (ok, gs', s')"
        by (simp add: Let_def)
      from Cons.IH [OF this] show ?thesis by simp
    qed
  qed
qed

lemma playPositions_scores:
  assumes "playPositions db run e1 e2 n sps gs (Finite (of_int a / 2), Finite (of_int b / 2))
             = (ok, gs', s')"
    and "0 \<le> a" and "0 \<le> b" and "a + b = 2 * int (nonErrorGames gs)"
    and "length gs' < 2 ^ 50"
  shows "\<exists>a' b'. s' = (Finite (of_int a' / 2), Finite (of_int b' / 2))
                 \<and> 0 \<le> a' \<and> 0 \<le> b' \<and> a' + b' = 2 * int (nonErrorGames gs')"
  using assms
proof (induction sps arbitrary: gs a b)
  case Nil
  then show ?case by auto
next
  case (Cons sp sps)
  let ?s = "(Finite (of_int a / 2), Finite (of_int b / 2))"
  have bound: "\<And>gs0 a0 b0. length gs0 \<le> length gs' \<Longrightarrow> 0 \<le> a0 \<Longrightarrow> 0 \<le> b0
      \<Longrightarrow> a0 + b0 = 2 * int (nonErrorGames gs0) \<Longrightarrow> a0 < 2 ^ 52 \<and> b0 < 2 ^ 52"
  proof -
    fix gs0 :: "GameResult list" and a0 b0 :: int
    assume l: "length gs0 \<le> length gs'" and p: "0 \<le> a0" "0 \<le> b0"
      and e: "a0 + b0 = 2 * int (nonErrorGames gs0)"
    have "int (nonErrorGames gs0) \<le> int (length gs')"
      using nonErrorGames_le [of gs0] l by linarith
    moreover have "int (length gs') < 2 ^ 50"
      using Cons.prems(5) by (metis of_nat_less_iff of_nat_numeral of_nat_power)
    ultimately have "a0 + b0 < 2 ^ 52" using e by simp
    with p show "a0 < 2 ^ 52 \<and> b0 < 2 ^ 52" by linarith
  qed
  show ?case
  proof (cases "playGame db run (length gs) e1 e2 sp n White")
    case (Inl e)
    with Cons.prems show ?thesis by auto
  next
    case g1: (Inr game1)
    let ?gs1 = "gs @ [game1]"
    have l0: "length gs \<le> length gs'" using playPositions_length [OF Cons.prems(1)] .
    from bound [OF l0 Cons.prems(2,3,4)] have ab: "a < 2 ^ 52" "b < 2 ^ 52" by simp_all
    from addScore_halves [OF Cons.prems(2,3) ab, of "result game1"] obtain a1 b1 where
      s1: "addScore (result game1) ?s = (Finite (of_int a1 / 2), Finite (of_int b1 / 2))"
      and p1: "0 \<le> a1" "0 \<le> b1"
      and t1: "a1 + b1 = a + b + (if result game1 = Errored then 0 else 2)" by blast
    have e1: "a1 + b1 = 2 * int (nonErrorGames ?gs1)"
      using t1 Cons.prems(4) by (simp add: nonErrorGames_snoc)
    show ?thesis
    proof (cases "playGame db run (length ?gs1) e1 e2 sp n Black")
      case (Inl e)
      with Cons.prems(1) g1 have "s' = addScore (result game1) ?s" and "gs' = ?gs1"
        by (simp_all add: Let_def)
      with s1 p1 e1 show ?thesis by blast
    next
      case g2: (Inr game2)
      let ?gs2 = "?gs1 @ [game2]"
      from Cons.prems(1) g1 g2 s1
      have rest: "playPositions db run e1 e2 n sps ?gs2
              (addScore (result game2) (Finite (of_int a1 / 2), Finite (of_int b1 / 2))) = (ok, gs', s')"
        by (simp add: Let_def)
      have "length ?gs2 \<le> length gs'" using playPositions_length [OF rest] .
      then have l1: "length ?gs1 \<le> length gs'" by simp
      from bound [OF l1 p1 e1] have ab1: "a1 < 2 ^ 52" "b1 < 2 ^ 52" by simp_all
      from addScore_halves [OF p1 ab1, of "result game2"] obtain a2 b2 where
        s2: "addScore (result game2) (Finite (of_int a1 / 2), Finite (of_int b1 / 2))
               = (Finite (of_int a2 / 2), Finite (of_int b2 / 2))"
        and p2: "0 \<le> a2" "0 \<le> b2"
        and t2: "a2 + b2 = a1 + b1 + (if result game2 = Errored then 0 else 2)" by blast
      have e2: "a2 + b2 = 2 * int (nonErrorGames ?gs2)"
        using t2 e1 by (simp only: nonErrorGames_snoc) simp
      from rest have "playPositions db run e1 e2 n sps ?gs2
              (Finite (of_int a2 / 2), Finite (of_int b2 / 2)) = (ok, gs', s')"
        by (simp only: s2)
      from Cons.IH [OF this p2 e2 Cons.prems(5)] show ?thesis .
    qed
  qed
qed

lemma playMatchSet_scores:
  assumes "length (result_games (playMatchSet db run e1 e2 ms)) < 2 ^ 50"
  shows "\<exists>s1 s2. engine1Score (playMatchSet db run e1 e2 ms) = Finite s1
               \<and> engine2Score (playMatchSet db run e1 e2 ms) = Finite s2
               \<and> 0 \<le> s1 \<and> 0 \<le> s2
               \<and> s1 + s2 = real (nonErrorGames (result_games (playMatchSet db run e1 e2 ms)))
               \<and> totalGames (playMatchSet db run e1 e2 ms)
                   = length (result_games (playMatchSet db run e1 e2 ms))"
proof -
  obtain ok gs s where
    p: "playPositions db run e1 e2 (set_name ms) (startingPositions ms) []
          (Finite 0, Finite 0) = (ok, gs, s)"
    by (metis prod_cases3)
  have g: "result_games (playMatchSet db run e1 e2 ms) = gs"
    by (simp add: playMatchSet_def p split: prod.splits)
  from p have p': "playPositions db run e1 e2 (set_name ms) (startingPositions ms) []
          (Finite (of_int 0 / 2), Finite (of_int 0 / 2)) = (ok, gs, s)" by simp
  have l: "length gs < 2 ^ 50" using assms by (simp only: g)
  from playPositions_scores [OF p' _ _ _ l] obtain a b where
    s: "s = (Finite (of_int a / 2), Finite (of_int b / 2))" and ab: "0 \<le> a" "0 \<le> b"
    and t: "a + b = 2 * int (nonErrorGames gs)"
    by (auto simp: nonErrorGames_def)
  have "real_of_int a / 2 + real_of_int b / 2 = real_of_int (a + b) / 2" by simp
  also have "\<dots> = real (nonErrorGames gs)" by (simp add: t)
  finally have t': "real_of_int a / 2 + real_of_int b / 2 = real (nonErrorGames gs)" .
  have m: "engine1Score (playMatchSet db run e1 e2 ms) = Finite (real_of_int a / 2)"
    "engine2Score (playMatchSet db run e1 e2 ms) = Finite (real_of_int b / 2)"
    "totalGames (playMatchSet db run e1 e2 ms) = length gs"
    by (simp_all add: playMatchSet_def p s)
  have "0 \<le> real_of_int a / 2" "0 \<le> real_of_int b / 2" using ab by simp_all
  with t' m g show ?thesis by blast
qed

text \<open>For a match set without an error game, the two rating changes of
  \<open>recordMatchSetResult\<close> add up to at most 1 in absolute value.\<close>

lemma ratingChanges_conservation:
  assumes "accurate hp" and "int4 R1" and "int4 R2"
    and "0 \<le> s1" and "0 \<le> s2" and "s1 + s2 = real n" and "0 < n" and "n < 2 ^ 32"
  shows "\<exists>d1 d2.
           ratingChanges hp (Number R1) (Number R2)
             (num_div (Finite s1) (Number (int n))) (num_div (Finite s2) (Number (int n)))
           = (Finite (of_int d1), Finite (of_int d2))
           \<and> \<bar>d1 + d2\<bar> \<le> 1"
proof -
  have le: "s1 \<le> real n" "s2 \<le> real n" using assms(4-6) by linarith+
  have "s2 = real n - s1" using assms(6) by linarith
  then have "s2 / real n = real n / real n - s1 / real n" by (simp add: diff_divide_distrib)
  then have s2: "s2 / real n = 1 - s1 / real n" using assms(7) by simp
  from ratingChanges_close [OF assms(1-4) le(1) assms(5) le(2) assms(7,8)] obtain y1 y2 where
    r: "ratingChanges hp (Number R1) (Number R2)
          (num_div (Finite s1) (Number (int n))) (num_div (Finite s2) (Number (int n)))
        = (Finite (of_int \<lfloor>y1 + 1 / 2\<rfloor>), Finite (of_int \<lfloor>y2 + 1 / 2\<rfloor>))"
    and y1: "\<bar>y1 - 32 * (s1 / real n - spec_E1 R1 R2)\<bar> \<le> 1 / 8"
    and y2: "\<bar>y2 - 32 * (s2 / real n - (1 - spec_E1 R1 R2))\<bar> \<le> 1 / 8" by blast
  have "\<bar>y1 + y2\<bar> \<le> 1 / 4" using y1 y2 unfolding s2 by argo
  then have "\<bar>real_of_int \<lfloor>y1 + 1 / 2\<rfloor> + real_of_int \<lfloor>y2 + 1 / 2\<rfloor>\<bar> < 2" by linarith
  then have "\<bar>real_of_int (\<lfloor>y1 + 1 / 2\<rfloor> + \<lfloor>y2 + 1 / 2\<rfloor>)\<bar> < 2" by simp
  then have "\<bar>\<lfloor>y1 + 1 / 2\<rfloor> + \<lfloor>y2 + 1 / 2\<rfloor>\<bar> \<le> 1" by linarith
  with r show ?thesis by blast
qed

section \<open>A match set of crashed games\<close>

lemma playGame_crash:
  "playGame two_engines crashing_run i 1 2 (hd (startingPositions one_position)) ''Standard'' c
     = Inr (crashed_game c)"
  by (simp add: playGame_def two_engines_eq crashing_run_def one_position_def crashed_game_def
      message_def)

lemma playMatchSet_crash:
  "playMatchSet two_engines crashing_run 1 2 one_position =
     \<lparr>result_engine1Id = 1, result_engine2Id = 2, result_matchSetName = ''Standard'',
      result_games = [crashed_game White, crashed_game Black],
      engine1Score = Finite 0, engine2Score = Finite 0, totalGames = 2, completed = True\<rparr>"
proof -
  have sp: "startingPositions one_position = [hd (startingPositions one_position)]"
    by (simp add: one_position_def)
  have n: "set_name one_position = ''Standard''" by (simp add: one_position_def)
  have "playPositions two_engines crashing_run 1 2 ''Standard''
          [hd (startingPositions one_position)] [] (Finite 0, Finite 0)
          = (True, [crashed_game White, crashed_game Black], Finite 0, Finite 0)"
    using playGame_crash [of 0 White] playGame_crash [of 1 Black]
    by (simp add: addScore_def crashed_game_def Let_def)
  then show ?thesis
    by (subst playMatchSet_def, subst sp) (simp add: n)
qed

lemma select_rating_two_engines:
  "select_rating (two_engines\<lparr>games := gs, games_id_seq := k\<rparr>) 1 = [1500]"
  "select_rating (two_engines\<lparr>games := gs, games_id_seq := k\<rparr>) 2 = [1500]"
  by (simp_all add: select_rating_def two_engines_eq)

text \<open>Equal ratings: each engine was expected to score one half. No score at all, and
  one win with one game that does not count.\<close>

lemma ratingChanges_no_score:
  "ratingChanges hp (Finite 1500) (Finite 1500) (Finite 0) (Finite 0) = (Finite (- 16), Finite (- 16))"
  by (simp add: equal_ratings [of 1500, simplified] num_sub_def)

lemma ratingChanges_one_win:
  "ratingChanges hp (Finite 1500) (Finite 1500) (Finite (1 / 2)) (Finite 0) = (Finite 0, Finite (- 16))"
  by (simp add: equal_ratings [of 1500, simplified] num_sub_def)

lemma recordGames_crash:
  "recordGames hp two_engines [crashed_game White, crashed_game Black] =
     (Inr (), two_engines\<lparr>games := [crashed_row 1 White, crashed_row 2 Black],
                          games_id_seq := 2\<rparr>)"
  by (simp add: recordGameResult_def insert_game_def varchar_opt_def varchar_def Let_def
      crashed_game_def crashed_row_def other_color_def select_rating_def two_engines_eq)

text \<open>
  Claim C4 says that games with the result \<open>'error'\<close> are left out of the denominator of
  the score and that a match set of such games alone changes no rating. The code divides
  by \<open>totalGames\<close>, the number of all games. Engines 1 and 2 are both rated 1500 and
  both of their games crash: the two games are recorded with their error text, the
  scores are 0 and 0 out of 2 games, none of which counts, and the transaction commits
  with both ratings at 1484, on every host.
\<close>

theorem recordMatchSetResult_all_errors:
  "playMatchSet two_engines crashing_run 1 2 one_position =
     \<lparr>result_engine1Id = 1, result_engine2Id = 2, result_matchSetName = ''Standard'',
      result_games = [crashed_game White, crashed_game Black],
      engine1Score = Finite 0, engine2Score = Finite 0, totalGames = 2, completed = True\<rparr>
   \<and> nonErrorGames (result_games (playMatchSet two_engines crashing_run 1 2 one_position)) = 0
   \<and> map rating (engines two_engines) = [1500, 1500]
   \<and> recordMatchSetResult host_pow two_engines
         (playMatchSet two_engines crashing_run 1 2 one_position)
       = (Inr (), after_crashes)
   \<and> map rating (engines after_crashes) = [1484, 1484]
   \<and> map error_message (games after_crashes) = [Some ''Engine crashed'', Some ''Engine crashed'']"
proof -
  let ?db1 = "two_engines\<lparr>games := [crashed_row 1 White, crashed_row 2 Black],
                          games_id_seq := 2\<rparr>"
  have u: "update_engines (\<lambda>e. id_col e = 2) (\<lambda>e. e\<lparr>rating := 1484\<rparr>)
             (update_engines (\<lambda>e. id_col e = 1) (\<lambda>e. e\<lparr>rating := 1484\<rparr>) ?db1)
           = after_crashes"
    by (simp add: update_engines_def two_engines_eq after_crashes_def)
  have r: "recordMatchSetResult host_pow two_engines
             \<lparr>result_engine1Id = 1, result_engine2Id = 2, result_matchSetName = ''Standard'',
              result_games = [crashed_game White, crashed_game Black],
              engine1Score = Finite 0, engine2Score = Finite 0, totalGames = 2, completed = True\<rparr>
            = (Inr (), after_crashes)"
    unfolding recordMatchSetResult_def
    by (simp add: recordGames_crash select_rating_two_engines ratingChanges_no_score Let_def u
        integer_param_def del: One_nat_def recordGames.simps)
  have e: "map rating (engines two_engines) = [1500, 1500]"
    by (simp add: two_engines_eq)
  have n: "nonErrorGames [crashed_game White, crashed_game Black] = 0"
    by (simp add: nonErrorGames_def crashed_game_def)
  have a: "map rating (engines after_crashes) = [1484, 1484]"
    by (simp add: after_crashes_def)
  have m: "map error_message (games after_crashes)
             = [Some ''Engine crashed'', Some ''Engine crashed'']"
    by (simp add: after_crashes_def crashed_row_def)
  show ?thesis
    unfolding playMatchSet_crash r e by (simp add: n a m)
qed

section \<open>A match set with one game that counts and one crashed game\<close>

lemma playGame_win_then_crash:
  "playGame two_engines win_then_crash 0 1 2 (hd (startingPositions one_position)) ''Standard'' White
     = Inr won_game"
  "playGame two_engines win_then_crash (Suc 0) 1 2 (hd (startingPositions one_position)) ''Standard''
     Black = Inr (crashed_game Black)"
  by (simp_all add: playGame_def two_engines_eq win_then_crash_def one_position_def won_game_def
      crashed_game_def message_def other_color_def)

lemma playMatchSet_win_then_crash:
  "playMatchSet two_engines win_then_crash 1 2 one_position =
     \<lparr>result_engine1Id = 1, result_engine2Id = 2, result_matchSetName = ''Standard'',
      result_games = [won_game, crashed_game Black],
      engine1Score = Finite 1, engine2Score = Finite 0, totalGames = 2, completed = True\<rparr>"
proof -
  have sp: "startingPositions one_position = [hd (startingPositions one_position)]"
    by (simp add: one_position_def)
  have n: "set_name one_position = ''Standard''" by (simp add: one_position_def)
  have "playPositions two_engines win_then_crash 1 2 ''Standard''
          [hd (startingPositions one_position)] [] (Finite 0, Finite 0)
          = (True, [won_game, crashed_game Black], Finite 1, Finite 0)"
    using playGame_win_then_crash
    by (simp add: addScore_def crashed_game_def won_game_def Let_def)
  then show ?thesis
    by (subst playMatchSet_def, subst sp) (simp add: n)
qed

lemma recordGames_win_then_crash:
  "\<exists>gs. recordGames hp two_engines [won_game, crashed_game Black] =
     (Inr (), two_engines\<lparr>games := gs, games_id_seq := 2\<rparr>)"
  by (simp add: recordGameResult_def insert_game_def varchar_opt_def varchar_def Let_def
      crashed_game_def won_game_def other_color_def select_rating_def two_engines_eq)

text \<open>
  Claim C2 says that the two rating changes add up to at most 1 in absolute value. On a
  match set with an error game they do not, by the defect of claim C4: the code divides
  both scores by \<open>totalGames\<close>, the error games included, so the two actual scores add
  up to less than 1. Engines 1 and 2 are both rated 1500; engine 1 wins the first game
  and the second game crashes. The scores are 1 and 0 out of 2 games, of which one
  counts; the changes are 0 and \<open>-16\<close>, and the transaction commits with the ratings
  1500 and 1484, on every host.
\<close>

theorem recordMatchSetResult_error_game:
  "playMatchSet two_engines win_then_crash 1 2 one_position =
     \<lparr>result_engine1Id = 1, result_engine2Id = 2, result_matchSetName = ''Standard'',
      result_games = [won_game, crashed_game Black],
      engine1Score = Finite 1, engine2Score = Finite 0, totalGames = 2, completed = True\<rparr>
   \<and> nonErrorGames (result_games (playMatchSet two_engines win_then_crash 1 2 one_position)) = 1
   \<and> map rating (engines two_engines) = [1500, 1500]
   \<and> ratingChanges host_pow (Number 1500) (Number 1500)
        (num_div (Finite 1) (Number 2)) (num_div (Finite 0) (Number 2))
      = (Finite 0, Finite (- 16))
   \<and> fst (recordMatchSetResult host_pow two_engines
            (playMatchSet two_engines win_then_crash 1 2 one_position)) = Inr ()
   \<and> map rating (engines (snd (recordMatchSetResult host_pow two_engines
                                  (playMatchSet two_engines win_then_crash 1 2 one_position))))
       = [1500, 1484]"
proof -
  obtain gs where g: "recordGames host_pow two_engines [won_game, crashed_game Black] =
     (Inr (), two_engines\<lparr>games := gs, games_id_seq := 2\<rparr>)"
    using recordGames_win_then_crash by blast
  let ?db1 = "two_engines\<lparr>games := gs, games_id_seq := 2\<rparr>"
  have r: "recordMatchSetResult host_pow two_engines
             \<lparr>result_engine1Id = 1, result_engine2Id = 2, result_matchSetName = ''Standard'',
              result_games = [won_game, crashed_game Black],
              engine1Score = Finite 1, engine2Score = Finite 0, totalGames = 2, completed = True\<rparr>
            = (Inr (), update_engines (\<lambda>e. id_col e = 2) (\<lambda>e. e\<lparr>rating := 1484\<rparr>)
                         (update_engines (\<lambda>e. id_col e = 1) (\<lambda>e. e\<lparr>rating := 1500\<rparr>) ?db1))"
    unfolding recordMatchSetResult_def
    by (simp add: g select_rating_two_engines ratingChanges_one_win Let_def
        integer_param_def del: One_nat_def recordGames.simps)
  have e: "map rating (engines two_engines) = [1500, 1500]"
    by (simp add: two_engines_eq)
  have n: "nonErrorGames [won_game, crashed_game Black] = 1"
    by (simp add: nonErrorGames_def crashed_game_def won_game_def)
  have c: "ratingChanges host_pow (Number 1500) (Number 1500)
        (num_div (Finite 1) (Number 2)) (num_div (Finite 0) (Number 2))
      = (Finite 0, Finite (- 16))"
    by (simp add: ratingChanges_one_win)
  have a: "map rating (engines (update_engines (\<lambda>e. id_col e = 2) (\<lambda>e. e\<lparr>rating := 1484\<rparr>)
                         (update_engines (\<lambda>e. id_col e = 1) (\<lambda>e. e\<lparr>rating := 1500\<rparr>) ?db1)))
           = [1500, 1484]"
    by (simp add: update_engines_def two_engines_eq)
  note p = playMatchSet_win_then_crash
  have n': "nonErrorGames (result_games (playMatchSet two_engines win_then_crash 1 2 one_position)) = 1"
    unfolding p using n by simp
  have f: "fst (recordMatchSetResult host_pow two_engines
            (playMatchSet two_engines win_then_crash 1 2 one_position)) = Inr ()"
    unfolding p r by simp
  have s: "map rating (engines (snd (recordMatchSetResult host_pow two_engines
                                  (playMatchSet two_engines win_then_crash 1 2 one_position))))
       = [1500, 1484]"
    unfolding p r by (simp only: snd_conv a)
  from p n' e c f s show ?thesis by blast
qed

section \<open>The expectations of the tests\<close>

text \<open>The model gives what the test suites expect of the code, on every host: the rating
  changes between equal players, the two ratings that \<open>updateRatings\<close> writes for a win
  and for a draw, and the two keys of each row of pair counts.\<close>

lemma test_equal_players:
  "calculateEloChange hp (Finite 1500) (Finite 1500) (Finite 1) calculateEloChange_k
     = (Finite 1516, Finite 1484)"
  "calculateEloChange hp (Finite 1500) (Finite 1500) (Finite (1 / 2)) calculateEloChange_k
     = (Finite 1500, Finite 1500)"
  "calculateEloChange hp (Finite 1500) (Finite 1500) (Finite 0) calculateEloChange_k
     = (Finite 1484, Finite 1516)"
  by (simp_all add: calculateEloChange_equal_players calculateEloChange_k_def)

lemma test_updateRatings:
  "map rating (engines (snd (updateRatings hp two_engines 1 2 (Some False)))) = [1516, 1484]"
  "map rating (engines (snd (updateRatings hp two_engines 1 2 (Some True)))) = [1500, 1500]"
  by (simp_all add: updateRatings_def update_engines_def select_rating_def two_engines_eq
      Math_pow_def num_sub_def integer_param_def Let_def)

lemma test_pair_keys: "pairKey 1 2 = ''1-2''" "pairKey 12 345 = ''12-345''"
  by (simp_all add: pairKey_def string_of_nat.simps digit_char_def char_of_def bit_0)

lemma test_pair_counts:
  "setPairCounts Map.empty [(1, 2, 5), (2, 3, 3)] (pairKey 1 2) = Some 5"
  "setPairCounts Map.empty [(1, 2, 5), (2, 3, 3)] (pairKey 2 1) = Some 5"
  "setPairCounts Map.empty [(1, 2, 5), (2, 3, 3)] (pairKey 2 3) = Some 3"
  "setPairCounts Map.empty [(1, 2, 5), (2, 3, 3)] (pairKey 3 2) = Some 3"
  by (simp_all add: pairKey_inj)

end
